theory Spec2Isabelle
  imports Complex_Main "HOL-Library.Multiset" "HOL-Library.Word"
begin

section \<open>Common types of the remittance services\<close>

text \<open>
  The Go source declares \<open>Currency\<close>, \<open>TransactionStatus\<close> and \<open>PaymentMethod\<close> as
  string types with named constants. A \<open>time.Time\<close> is modelled as a number of
  seconds since the epoch.
\<close>

type_synonym Currency = string

type_synonym TransactionStatus = string

type_synonym PaymentMethod = string

type_synonym time = int

definition USD :: Currency where "USD = ''USD''"

definition EUR :: Currency where "EUR = ''EUR''"

definition GBP :: Currency where "GBP = ''GBP''"

definition INR :: Currency where "INR = ''INR''"

definition PHP :: Currency where "PHP = ''PHP''"

definition MXN :: Currency where "MXN = ''MXN''"

definition StatusPending :: TransactionStatus where "StatusPending = ''PENDING''"

definition StatusCompleted :: TransactionStatus where "StatusCompleted = ''COMPLETED''"

definition StatusFailed :: TransactionStatus where "StatusFailed = ''FAILED''"

definition StatusCancelled :: TransactionStatus where "StatusCancelled = ''CANCELLED''"

definition PaymentBankTransfer :: PaymentMethod where "PaymentBankTransfer = ''BANK_TRANSFER''"

definition PaymentCard :: PaymentMethod where "PaymentCard = ''CARD''"

definition PaymentWallet :: PaymentMethod where "PaymentWallet = ''WALLET''"

definition PaymentCash :: PaymentMethod where "PaymentCash = ''CASH''"

subsection \<open>\<open>float64\<close> numbers\<close>

text \<open>
  A \<open>float64\<close> is modelled as the real number it denotes: zero, or a number
  \<open>m * 2 ^ e\<close> or its negative with \<open>m < 2 ^ 53\<close> and \<open>e\<close> from -1074 to 971. An arithmetic
  operation of the source is the exact operation on the reals followed by
  \<open>float64_round\<close>, the rounding to the nearest \<open>float64\<close> with ties going to the even
  significand; a constant of the source such as \<open>5.99\<close> is the rounding of its decimal
  value. \<open>binade\<close> finds the power of two at or below a positive number, from \<open>2 ^ -1022\<close>,
  below which the numbers are subnormal, to \<open>2 ^ 1023\<close>; the spacing of the \<open>float64\<close>
  numbers there is that power divided by \<open>2 ^ 52\<close>. A number overflows when it lies
  in the topmost binade and its significand rounds up to \<open>2 ^ 53\<close>, that is when its
  rounding has the magnitude \<open>2 ^ 1024\<close>; the infinities it then becomes in Go, the
  sign of zero and NaN are outside the model. Every operation is rounded on its own, as
  the code compiled for amd64 does; the fusing of a multiplication with an addition,
  which the language permits a compiler, is not modelled.
\<close>

type_synonym float64 = real

fun binade_up :: "nat \<Rightarrow> real \<Rightarrow> int \<Rightarrow> real \<Rightarrow> int \<times> real" where
  "binade_up 0 x e p = (e, p)"
| "binade_up (Suc n) x e p = (if 2 * p \<le> x then binade_up n x (e + 1) (2 * p) else (e, p))"

fun binade_down :: "nat \<Rightarrow> real \<Rightarrow> int \<Rightarrow> real \<Rightarrow> int \<times> real" where
  "binade_down 0 x e p = (e, p)"
| "binade_down (Suc n) x e p = (if x < p then binade_down n x (e - 1) (p / 2) else (e, p))"

definition binade :: "real \<Rightarrow> int \<times> real" where
  "binade x = (if 1 \<le> x then binade_up 1023 x 0 1 else binade_down 1022 x 0 1)"

definition round_half_even :: "real \<Rightarrow> int" where
  "round_half_even q =
     (let n = \<lfloor>q\<rfloor>; r = q - of_int n
      in if r < 1 / 2 then n
         else if 1 / 2 < r then n + 1
         else if even n then n else n + 1)"

definition float64_round :: "real \<Rightarrow> float64" where
  "float64_round x =
     (if x = 0 then 0
      else let ulp = snd (binade \<bar>x\<bar>) / 2 ^ 52
           in sgn x * of_int (round_half_even (\<bar>x\<bar> / ulp)) * ulp)"

definition float64_overflows :: "real \<Rightarrow> bool" where
  "float64_overflows x =
     (if x = 0 then False
      else let (e, p) = binade \<bar>x\<bar>
           in if e < 1023 then False
              else 2 ^ 53 \<le> round_half_even (\<bar>x\<bar> / (p / 2 ^ 52)))"

definition float64_add :: "float64 \<Rightarrow> float64 \<Rightarrow> float64" where
  "float64_add x y = float64_round (x + y)"

definition float64_mul :: "float64 \<Rightarrow> float64 \<Rightarrow> float64" where
  "float64_mul x y = float64_round (x * y)"

subsection \<open>Requests, responses and quotes\<close>

record Address =
  Street :: string
  City :: string
  State :: string
  PostalCode :: string
  Country :: string
  CountryCode :: string

record Recipient =
  ID :: string
  Name :: string
  Email :: string
  Phone :: string
  Address :: Address
  BankDetails :: "(string \<times> string) list"

record TransactionRequest =
  SenderID :: string
  Recipient :: Recipient
  Amount :: float64
  FromCurrency :: Currency
  ToCurrency :: Currency
  PaymentMethod :: PaymentMethod
  Purpose :: string
  Reference :: string

record TransactionResponse =
  TransactionID :: string
  Status :: TransactionStatus
  Amount :: float64
  Fee :: float64
  ExchangeRate :: float64
  EstimatedTime :: string
  TrackingURL :: string
  Error :: string

record RemittanceQuote =
  Provider :: string
  Amount :: float64
  Fee :: float64
  ExchangeRate :: float64
  TotalCost :: float64
  ReceivedAmount :: float64
  EstimatedTime :: string
  ValidUntil :: time

subsection \<open>Errors, panics and results\<close>

text \<open>
  A Go function returning \<open>(*T, error)\<close> either returns a value with a nil error,
  returns an error, or panics. A nil value with a nil error, which no adapter of the
  source returns, is not modelled. Each error value created in the source has its own
  constructor; the errors of the HTTP client and of the JSON decoder carry their message.
\<close>

datatype error =
    ClientError string
  | SyntaxError string
  | UnmarshalTypeError string
  | ErrNoQuotes
  | ErrProviderNotFound string

fun error_string :: "error \<Rightarrow> string" where
  "error_string (ClientError m) = m"
| "error_string (SyntaxError m) = m"
| "error_string (UnmarshalTypeError m) = m"
| "error_string ErrNoQuotes = ''no quotes available''"
| "error_string (ErrProviderNotFound n) = ''provider '' @ n @ '' not found''"

datatype 'a result = Ok 'a | Err error | Panic string

section \<open>The provider capability\<close>

text \<open>
  \<open>RemittanceProvider\<close> is the interface the hub dispatches on. An adapter is the record
  of its methods; \<open>GetQuote\<close> and \<open>SendMoney\<close> answer as the adapter's backend does at
  the moment of the call: with a value, with an error, or with a panic. The hub uses no
  other member of the interface.
\<close>

record RemittanceProvider =
  GetName :: string
  GetSupportedCurrencies :: "Currency list"
  GetSupportedCountries :: "string list"
  GetQuote :: "TransactionRequest \<Rightarrow> RemittanceQuote result"
  SendMoney :: "TransactionRequest \<Rightarrow> TransactionResponse result"

subsection \<open>Upstream replies\<close>

text \<open>
  An adapter's \<open>makeRequest\<close> sends an HTTP request and returns the client's error or
  the response; the caller then decodes the response's body with \<open>json.Decoder\<close>. What
  the backend answers is an input of the model: an error of the HTTP client, or a
  response whose body is not JSON or is a JSON value. The status code of the response is
  never inspected by the source. Credentials, URLs and the body of the outgoing request
  shape the request only and are not modelled. A number of a JSON value is its literal
  as written in the body, together with the decimal value that the literal denotes.
\<close>

datatype json =
    JNull
  | JBool bool
  | JNumber string real
  | JString string
  | JArray "json list"
  | JObject "(string \<times> json) list"

datatype body = NotJSON string | JSON json

datatype upstream = ClientFailure string | Response body

fun makeRequest :: "upstream \<Rightarrow> error + body" where
  "makeRequest (ClientFailure m) = Inl (ClientError m)"
| "makeRequest (Response resp) = Inr resp"

text \<open>The number literals of a JSON value, in the order of the document.\<close>

fun json_numbers :: "json \<Rightarrow> (string \<times> real) list" where
  "json_numbers JNull = []"
| "json_numbers (JBool b) = []"
| "json_numbers (JNumber lit x) = [(lit, x)]"
| "json_numbers (JString s) = []"
| "json_numbers (JArray xs) = concat (map json_numbers xs)"
| "json_numbers (JObject kvs) = concat (map (\<lambda>kv. json_numbers (snd kv)) kvs)"

text \<open>
  Decoding into a \<open>map[string]interface{}\<close>: an object fills the map, a later key
  overwriting an earlier one; \<open>null\<close> leaves the map nil, which reads as empty; any
  other value is an \<open>UnmarshalTypeError\<close>. A field of the map holds nil, a bool, a
  float64, a string, a slice or a map. A number is converted with \<open>strconv.ParseFloat\<close>,
  which rounds the literal's value to the nearest \<open>float64\<close>; the decoder goes through the
  whole object and then returns the \<open>UnmarshalTypeError\<close> of the first number that
  overflows, if there is one.
\<close>

definition unmarshal_type_error :: "string \<Rightarrow> string \<Rightarrow> error" where
  "unmarshal_type_error v t =
     UnmarshalTypeError (''json: cannot unmarshal '' @ v @ '' into Go value of type '' @ t)"

fun Decode :: "body \<Rightarrow> error + (string \<rightharpoonup> json)" where
  "Decode (NotJSON m) = Inl (SyntaxError m)"
| "Decode (JSON (JObject kvs)) =
     (case filter (\<lambda>(lit, x). float64_overflows x) (json_numbers (JObject kvs)) of
        [] \<Rightarrow> Inr (map_of (rev kvs))
      | (lit, x) # rest \<Rightarrow> Inl (unmarshal_type_error (''number '' @ lit) ''float64''))"
| "Decode (JSON JNull) = Inr Map.empty"
| "Decode (JSON (JBool b)) =
     Inl (unmarshal_type_error ''bool'' ''map[string]interface {}'')"
| "Decode (JSON (JNumber lit x)) =
     Inl (unmarshal_type_error ''number'' ''map[string]interface {}'')"
| "Decode (JSON (JString s)) =
     Inl (unmarshal_type_error ''string'' ''map[string]interface {}'')"
| "Decode (JSON (JArray xs)) =
     Inl (unmarshal_type_error ''array'' ''map[string]interface {}'')"

text \<open>
  The unchecked type assertions \<open>v.(float64)\<close> and \<open>v.(string)\<close> panic on a
  mismatch, with the dynamic type of the value in the message. A number of the map is
  the \<open>float64\<close> that its literal was rounded to.
\<close>

fun type_name :: "json option \<Rightarrow> string" where
  "type_name None = ''nil''"
| "type_name (Some JNull) = ''nil''"
| "type_name (Some (JBool b)) = ''bool''"
| "type_name (Some (JNumber lit x)) = ''float64''"
| "type_name (Some (JString s)) = ''string''"
| "type_name (Some (JArray xs)) = ''[]interface {}''"
| "type_name (Some (JObject kvs)) = ''map[string]interface {}''"

fun assert_float64 :: "json option \<Rightarrow> float64 result" where
  "assert_float64 (Some (JNumber lit x)) = Ok (float64_round x)"
| "assert_float64 v =
     Panic (''interface conversion: interface {} is '' @ type_name v @ '', not float64'')"

fun assert_string :: "json option \<Rightarrow> string result" where
  "assert_string (Some (JString s)) = Ok s"
| "assert_string v =
     Panic (''interface conversion: interface {} is '' @ type_name v @ '', not string'')"

subsection \<open>Wise\<close>

definition Wise_GetName :: string where
  "Wise_GetName = ''Wise''"

definition Wise_GetSupportedCurrencies :: "Currency list" where
  "Wise_GetSupportedCurrencies = [USD, EUR, GBP, INR, PHP]"

definition Wise_GetSupportedCountries :: "string list" where
  "Wise_GetSupportedCountries = [''US'', ''GB'', ''IN'', ''PH'', ''DE'', ''FR'', ''ES'']"

text \<open>
  \<open>reply\<close> is what the backend answers to this call, \<open>now\<close> what the clock reads. The
  three assertions run in the source's order.
\<close>

definition Wise_GetQuote :: "time \<Rightarrow> upstream \<Rightarrow> TransactionRequest \<Rightarrow> RemittanceQuote result" where
  "Wise_GetQuote now reply req =
     (case makeRequest reply of
        Inl err \<Rightarrow> Err err
      | Inr resp \<Rightarrow>
     (case Decode resp of
        Inl err \<Rightarrow> Err err
      | Inr quoteResp \<Rightarrow>
     (case assert_float64 (quoteResp ''fee'') of
        Panic m \<Rightarrow> Panic m
      | Err e \<Rightarrow> Err e
      | Ok fee \<Rightarrow>
     (case assert_float64 (quoteResp ''rate'') of
        Panic m \<Rightarrow> Panic m
      | Err e \<Rightarrow> Err e
      | Ok rate \<Rightarrow>
     (case assert_float64 (quoteResp ''targetAmount'') of
        Panic m \<Rightarrow> Panic m
      | Err e \<Rightarrow> Err e
      | Ok targetAmount \<Rightarrow>
          Ok \<lparr>Provider = Wise_GetName,
              Amount = TransactionRequest.Amount req,
              Fee = fee,
              ExchangeRate = rate,
              TotalCost = float64_add (TransactionRequest.Amount req) fee,
              ReceivedAmount = targetAmount,
              EstimatedTime = ''1-2 business days'',
              ValidUntil = now + 24 * 3600\<rparr>)))))"

definition Wise_SendMoney :: "upstream \<Rightarrow> TransactionRequest \<Rightarrow> TransactionResponse result" where
  "Wise_SendMoney reply req =
     (case makeRequest reply of
        Inl err \<Rightarrow> Err err
      | Inr resp \<Rightarrow>
     (case Decode resp of
        Inl err \<Rightarrow> Err err
      | Inr transferResp \<Rightarrow>
     (case assert_string (transferResp ''id'') of
        Panic m \<Rightarrow> Panic m
      | Err e \<Rightarrow> Err e
      | Ok tid \<Rightarrow>
          Ok \<lparr>TransactionID = tid,
              Status = StatusPending,
              Amount = TransactionRequest.Amount req,
              Fee = 10,
              ExchangeRate = float64_round (12 / 10),
              EstimatedTime = ''1-2 business days'',
              TrackingURL = ''https://wise.com/track/'' @ tid,
              Error = []\<rparr>)))"

subsection \<open>Remitly and WorldRemit\<close>

text \<open>\<open>fmt.Sprintf("%d", n)\<close>: the decimal digits of an integer.\<close>

fun digits :: "nat \<Rightarrow> string" where
  "digits n =
     (if n < 10 then [''0123456789'' ! n]
      else digits (n div 10) @ [''0123456789'' ! (n mod 10)])"

definition FormatInt :: "int \<Rightarrow> string" where
  "FormatInt n = (if n < 0 then ''-'' @ digits (nat (- n)) else digits (nat n))"

definition Remitly_GetName :: string where
  "Remitly_GetName = ''Remitly''"

definition Remitly_GetSupportedCurrencies :: "Currency list" where
  "Remitly_GetSupportedCurrencies = [USD, EUR, PHP, INR, MXN]"

definition Remitly_GetSupportedCountries :: "string list" where
  "Remitly_GetSupportedCountries = [''US'', ''PH'', ''IN'', ''MX'', ''GB'']"

definition Remitly_GetQuote :: "time \<Rightarrow> TransactionRequest \<Rightarrow> RemittanceQuote result" where
  "Remitly_GetQuote now req =
     (let fee = float64_mul (TransactionRequest.Amount req) (float64_round (2 / 100));
          rate = float64_round (115 / 100);
          receivedAmount = float64_mul (TransactionRequest.Amount req) rate
      in Ok \<lparr>Provider = Remitly_GetName,
              Amount = TransactionRequest.Amount req,
              Fee = fee,
              ExchangeRate = rate,
              TotalCost = float64_add (TransactionRequest.Amount req) fee,
              ReceivedAmount = receivedAmount,
              EstimatedTime = ''Minutes to hours'',
              ValidUntil = now + 30 * 60\<rparr>)"

definition Remitly_SendMoney :: "time \<Rightarrow> TransactionRequest \<Rightarrow> TransactionResponse result" where
  "Remitly_SendMoney now req =
     (let transactionID = ''REM_'' @ FormatInt now
      in Ok \<lparr>TransactionID = transactionID,
              Status = StatusPending,
              Amount = TransactionRequest.Amount req,
              Fee = float64_mul (TransactionRequest.Amount req) (float64_round (2 / 100)),
              ExchangeRate = float64_round (115 / 100),
              EstimatedTime = ''Minutes to hours'',
              TrackingURL = ''https://remitly.com/track/'' @ transactionID,
              Error = []\<rparr>)"

definition WorldRemit_GetName :: string where
  "WorldRemit_GetName = ''WorldRemit''"

definition WorldRemit_GetSupportedCurrencies :: "Currency list" where
  "WorldRemit_GetSupportedCurrencies = [USD, EUR, GBP, INR, PHP]"

definition WorldRemit_GetSupportedCountries :: "string list" where
  "WorldRemit_GetSupportedCountries = [''US'', ''GB'', ''IN'', ''PH'', ''KE'', ''GH'']"

definition WorldRemit_GetQuote :: "time \<Rightarrow> TransactionRequest \<Rightarrow> RemittanceQuote result" where
  "WorldRemit_GetQuote now req =
     (let fee = float64_round (599 / 100);
          rate = float64_round (118 / 100);
          receivedAmount = float64_mul (TransactionRequest.Amount req) rate
      in Ok \<lparr>Provider = WorldRemit_GetName,
              Amount = TransactionRequest.Amount req,
              Fee = fee,
              ExchangeRate = rate,
              TotalCost = float64_add (TransactionRequest.Amount req) fee,
              ReceivedAmount = receivedAmount,
              EstimatedTime = ''Minutes'',
              ValidUntil = now + 15 * 60\<rparr>)"

definition WorldRemit_SendMoney :: "time \<Rightarrow> TransactionRequest \<Rightarrow> TransactionResponse result" where
  "WorldRemit_SendMoney now req =
     (let transactionID = ''WR_'' @ FormatInt now
      in Ok \<lparr>TransactionID = transactionID,
              Status = StatusPending,
              Amount = TransactionRequest.Amount req,
              Fee = float64_round (599 / 100),
              ExchangeRate = float64_round (118 / 100),
              EstimatedTime = ''Minutes'',
              TrackingURL = ''https://worldremit.com/track/'' @ transactionID,
              Error = []\<rparr>)"

text \<open>
  The three adapters as values of the interface, in a world where the clock reads \<open>now\<close>
  and Wise's backend answers a quote request with \<open>quoteReply\<close> and a transfer request with
  \<open>transferReply\<close>.
\<close>

definition Wise :: "time \<Rightarrow> upstream \<Rightarrow> upstream \<Rightarrow> RemittanceProvider" where
  "Wise now quoteReply transferReply =
     \<lparr>GetName = Wise_GetName,
      GetSupportedCurrencies = Wise_GetSupportedCurrencies,
      GetSupportedCountries = Wise_GetSupportedCountries,
      GetQuote = Wise_GetQuote now quoteReply,
      SendMoney = Wise_SendMoney transferReply\<rparr>"

definition Remitly :: "time \<Rightarrow> RemittanceProvider" where
  "Remitly now =
     \<lparr>GetName = Remitly_GetName,
      GetSupportedCurrencies = Remitly_GetSupportedCurrencies,
      GetSupportedCountries = Remitly_GetSupportedCountries,
      GetQuote = Remitly_GetQuote now,
      SendMoney = Remitly_SendMoney now\<rparr>"

definition WorldRemit :: "time \<Rightarrow> RemittanceProvider" where
  "WorldRemit now =
     \<lparr>GetName = WorldRemit_GetName,
      GetSupportedCurrencies = WorldRemit_GetSupportedCurrencies,
      GetSupportedCountries = WorldRemit_GetSupportedCountries,
      GetQuote = WorldRemit_GetQuote now,
      SendMoney = WorldRemit_SendMoney now\<rparr>"

section \<open>The remittance hub\<close>

record RemittanceHub =
  providers :: "RemittanceProvider list"

definition NewRemittanceHub :: RemittanceHub where
  "NewRemittanceHub = \<lparr>providers = []\<rparr>"

definition AddProvider :: "RemittanceHub \<Rightarrow> RemittanceProvider \<Rightarrow> RemittanceHub" where
  "AddProvider rh provider = rh\<lparr>providers := providers rh @ [provider]\<rparr>"

text \<open>
  What a hub operation does besides returning: the adapter methods it invokes, named by
  the adapter's \<open>GetName\<close>, and the lines it writes with \<open>log.Printf\<close>, in order.
\<close>

datatype event =
    QuoteCall string TransactionRequest
  | SendCall string TransactionRequest
  | LogLine string

subsection \<open>Eligibility\<close>

text \<open>The two inner loops of \<open>GetAvailableProviders\<close>, each leaving at the first match.\<close>

fun supportsCurrencies :: "Currency list \<Rightarrow> Currency \<Rightarrow> Currency \<Rightarrow> bool" where
  "supportsCurrencies [] fromCurrency toCurrency = False"
| "supportsCurrencies (currency # rest) fromCurrency toCurrency =
     (if currency = fromCurrency \<or> currency = toCurrency then True
      else supportsCurrencies rest fromCurrency toCurrency)"

fun supportsCountries :: "string list \<Rightarrow> string \<Rightarrow> string \<Rightarrow> bool" where
  "supportsCountries [] fromCountry toCountry = False"
| "supportsCountries (country # rest) fromCountry toCountry =
     (if country = fromCountry \<or> country = toCountry then True
      else supportsCountries rest fromCountry toCountry)"

fun GetAvailableProviders_loop ::
  "RemittanceProvider list \<Rightarrow> string \<Rightarrow> string \<Rightarrow> Currency \<Rightarrow> Currency \<Rightarrow>
   RemittanceProvider list \<Rightarrow> RemittanceProvider list" where
  "GetAvailableProviders_loop [] fromCountry toCountry fromCurrency toCurrency available = available"
| "GetAvailableProviders_loop (provider # rest) fromCountry toCountry fromCurrency toCurrency available =
     (if supportsCurrencies (GetSupportedCurrencies provider) fromCurrency toCurrency
         \<and> supportsCountries (GetSupportedCountries provider) fromCountry toCountry
      then GetAvailableProviders_loop rest fromCountry toCountry fromCurrency toCurrency
             (available @ [provider])
      else GetAvailableProviders_loop rest fromCountry toCountry fromCurrency toCurrency available)"

definition GetAvailableProviders ::
  "RemittanceHub \<Rightarrow> string \<Rightarrow> string \<Rightarrow> Currency \<Rightarrow> Currency \<Rightarrow> RemittanceProvider list" where
  "GetAvailableProviders rh fromCountry toCountry fromCurrency toCurrency =
     GetAvailableProviders_loop (providers rh) fromCountry toCountry fromCurrency toCurrency []"

subsection \<open>Quote aggregation\<close>

text \<open>
  \<open>sort.Slice\<close> belongs to the Go standard library, not to this repository. The hub is
  modelled over the sorting function it calls, which receives the \<open>less\<close> closure on
  elements and the slice. The library documents that the result is the slice reordered
  so that \<open>less\<close> never holds between a later and an earlier element, and that the sort is
  not guaranteed to be stable.
\<close>

type_synonym 'a sorter = "('a \<Rightarrow> 'a \<Rightarrow> bool) \<Rightarrow> 'a list \<Rightarrow> 'a list"

definition sort_Slice_contract :: "RemittanceQuote sorter \<Rightarrow> bool" where
  "sort_Slice_contract srt \<longleftrightarrow>
     (\<forall>xs. mset (srt (\<lambda>a b. TotalCost a < TotalCost b) xs) = mset xs
         \<and> sorted_wrt (\<lambda>a b. \<not> TotalCost b < TotalCost a)
              (srt (\<lambda>a b. TotalCost a < TotalCost b) xs))"

text \<open>The loop over the eligible providers: a failing adapter is logged and skipped.\<close>

fun GetQuotes_loop ::
  "RemittanceProvider list \<Rightarrow> TransactionRequest \<Rightarrow> RemittanceQuote list \<Rightarrow> event list \<Rightarrow>
   RemittanceQuote list result \<times> event list" where
  "GetQuotes_loop [] req quotes trace = (Ok quotes, trace)"
| "GetQuotes_loop (provider # rest) req quotes trace =
     (case GetQuote provider req of
        Err err \<Rightarrow>
          GetQuotes_loop rest req quotes
            (trace @ [QuoteCall (GetName provider) req,
                      LogLine (''Error getting quote from '' @ GetName provider @ '': ''
                               @ error_string err)])
      | Ok quote \<Rightarrow>
          GetQuotes_loop rest req (quotes @ [quote])
            (trace @ [QuoteCall (GetName provider) req])
      | Panic m \<Rightarrow> (Panic m, trace @ [QuoteCall (GetName provider) req]))"

definition GetQuotes ::
  "RemittanceQuote sorter \<Rightarrow> RemittanceHub \<Rightarrow> TransactionRequest \<Rightarrow>
   RemittanceQuote list result \<times> event list" where
  "GetQuotes srt rh req =
     (let providers = GetAvailableProviders rh ''US''
                        (CountryCode (Address (Recipient req)))
                        (FromCurrency req) (ToCurrency req)
      in case GetQuotes_loop providers req [] [] of
           (Ok quotes, trace) \<Rightarrow> (Ok (srt (\<lambda>a b. TotalCost a < TotalCost b) quotes), trace)
         | (Err err, trace) \<Rightarrow> (Err err, trace)
         | (Panic m, trace) \<Rightarrow> (Panic m, trace))"

subsection \<open>Routing and best quote\<close>

fun SendMoneyWithProvider_loop ::
  "RemittanceProvider list \<Rightarrow> string \<Rightarrow> TransactionRequest \<Rightarrow>
   TransactionResponse result \<times> event list" where
  "SendMoneyWithProvider_loop [] providerName req = (Err (ErrProviderNotFound providerName), [])"
| "SendMoneyWithProvider_loop (provider # rest) providerName req =
     (if GetName provider = providerName
      then (SendMoney provider req, [SendCall (GetName provider) req])
      else SendMoneyWithProvider_loop rest providerName req)"

definition SendMoneyWithProvider ::
  "RemittanceHub \<Rightarrow> string \<Rightarrow> TransactionRequest \<Rightarrow> TransactionResponse result \<times> event list" where
  "SendMoneyWithProvider rh providerName req =
     SendMoneyWithProvider_loop (providers rh) providerName req"

definition GetBestQuote ::
  "RemittanceQuote sorter \<Rightarrow> RemittanceHub \<Rightarrow> TransactionRequest \<Rightarrow>
   RemittanceQuote result \<times> event list" where
  "GetBestQuote srt rh req =
     (case GetQuotes srt rh req of
        (Err err, trace) \<Rightarrow> (Err err, trace)
      | (Panic m, trace) \<Rightarrow> (Panic m, trace)
      | (Ok quotes, trace) \<Rightarrow>
          (if length quotes = 0 then (Err ErrNoQuotes, trace)
           else (Ok (quotes ! 0), trace)))"

subsection \<open>The wallet service\<close>

record WalletRemittanceService =
  hub :: RemittanceHub

text \<open>
  \<open>NewWalletRemittanceService\<close> registers Wise, Remitly and WorldRemit, in this order.
  The world the adapters run in is a parameter.
\<close>

definition NewWalletRemittanceService ::
  "time \<Rightarrow> upstream \<Rightarrow> upstream \<Rightarrow> WalletRemittanceService" where
  "NewWalletRemittanceService now quoteReply transferReply =
     \<lparr>hub = AddProvider
              (AddProvider
                (AddProvider NewRemittanceHub (Wise now quoteReply transferReply))
                (Remitly now))
              (WorldRemit now)\<rparr>"

definition GetRemittanceOptions ::
  "RemittanceQuote sorter \<Rightarrow> WalletRemittanceService \<Rightarrow> TransactionRequest \<Rightarrow>
   RemittanceQuote list result \<times> event list" where
  "GetRemittanceOptions srt wrs req = GetQuotes srt (hub wrs) req"

definition SendRemittance ::
  "WalletRemittanceService \<Rightarrow> string \<Rightarrow> TransactionRequest \<Rightarrow>
   TransactionResponse result \<times> event list" where
  "SendRemittance wrs providerName req = SendMoneyWithProvider (hub wrs) providerName req"

definition GetBestOption ::
  "RemittanceQuote sorter \<Rightarrow> WalletRemittanceService \<Rightarrow> TransactionRequest \<Rightarrow>
   RemittanceQuote result \<times> event list" where
  "GetBestOption srt wrs req = GetBestQuote srt (hub wrs) req"

subsection \<open>Reading a trace and the surviving quotes\<close>

text \<open>The adapters whose \<open>GetQuote\<close> was invoked, with the request each received.\<close>

fun quote_calls :: "event list \<Rightarrow> (string \<times> TransactionRequest) list" where
  "quote_calls [] = []"
| "quote_calls (QuoteCall n r # es) = (n, r) # quote_calls es"
| "quote_calls (e # es) = quote_calls es"

text \<open>The quotes of the adapters of a list that answer with a quote, in the list's order.\<close>

fun surviving_quotes :: "RemittanceProvider list \<Rightarrow> TransactionRequest \<Rightarrow> RemittanceQuote list" where
  "surviving_quotes [] req = []"
| "surviving_quotes (provider # rest) req =
     (case GetQuote provider req of
        Ok quote \<Rightarrow> quote # surviving_quotes rest req
      | Err err \<Rightarrow> surviving_quotes rest req
      | Panic m \<Rightarrow> surviving_quotes rest req)"

section \<open>\<open>sort.Slice\<close> as the Go library implements it\<close>

text \<open>
  The sorting function of package \<open>sort\<close> since Go 1.19 (file \<open>zsortfunc.go\<close>):
  pattern-defeating quicksort on the index range \<open>[a, b)\<close> of the slice, with
  insertion sort for at most 12 elements and heap sort when the recursion budget is
  spent. It is not part of the repository; it is modelled here to see what the hub's call
  does on concrete slices. The slice is a list, \<open>data.Less(i, j)\<close> is
  \<open>lessf (data ! i) (data ! j)\<close>, and \<open>data.Swap(i, j)\<close> is \<open>Swap data i j\<close>.
  The step of the pseudo-random generator used by \<open>breakPatterns\<close> is a parameter
  \<open>rnd\<close> of the model.
\<close>

unbundle bit_operations_syntax

definition Swap :: "'a list \<Rightarrow> nat \<Rightarrow> nat \<Rightarrow> 'a list" where
  "Swap data i j = data[i := data ! j, j := data ! i]"

fun insertionSort_inner :: "('a \<Rightarrow> 'a \<Rightarrow> bool) \<Rightarrow> 'a list \<Rightarrow> nat \<Rightarrow> nat \<Rightarrow> 'a list" where
  "insertionSort_inner lessf data a j =
     (if j > a \<and> lessf (data ! j) (data ! (j - 1))
      then insertionSort_inner lessf (Swap data j (j - 1)) a (j - 1)
      else data)"

function insertionSort_outer ::
  "('a \<Rightarrow> 'a \<Rightarrow> bool) \<Rightarrow> 'a list \<Rightarrow> nat \<Rightarrow> nat \<Rightarrow> nat \<Rightarrow> 'a list" where
  "insertionSort_outer lessf data a b i =
     (if i < b then insertionSort_outer lessf (insertionSort_inner lessf data a i) a b (i + 1)
      else data)"
  by pat_completeness auto
termination
  by (relation "measure (\<lambda>(lessf, data, a, b, i). b - i)") auto

declare insertionSort_inner.simps [simp del] insertionSort_outer.simps [simp del]

definition insertionSort_func :: "('a \<Rightarrow> 'a \<Rightarrow> bool) \<Rightarrow> 'a list \<Rightarrow> nat \<Rightarrow> nat \<Rightarrow> 'a list" where
  "insertionSort_func lessf data a b = insertionSort_outer lessf data a b (a + 1)"

text \<open>Heap sort on \<open>data[a:b]\<close>.\<close>

function siftDown_func ::
  "('a \<Rightarrow> 'a \<Rightarrow> bool) \<Rightarrow> 'a list \<Rightarrow> nat \<Rightarrow> nat \<Rightarrow> nat \<Rightarrow> 'a list" where
  "siftDown_func lessf data rootn hi first =
     (let child = 2 * rootn + 1 in
      if child \<ge> hi then data
      else
        let child = (if child + 1 < hi \<and> lessf (data ! (first + child)) (data ! (first + child + 1))
                     then child + 1 else child)
        in if \<not> lessf (data ! (first + rootn)) (data ! (first + child)) then data
           else siftDown_func lessf (Swap data (first + rootn) (first + child)) child hi first)"
  by pat_completeness auto
termination
  by (relation "measure (\<lambda>(lessf, data, rootn, hi, first). hi - rootn)") (auto simp: Let_def)

declare siftDown_func.simps [simp del]

fun heapSort_build :: "('a \<Rightarrow> 'a \<Rightarrow> bool) \<Rightarrow> 'a list \<Rightarrow> nat \<Rightarrow> nat \<Rightarrow> nat \<Rightarrow> 'a list" where
  "heapSort_build lessf data hi first 0 = siftDown_func lessf data 0 hi first"
| "heapSort_build lessf data hi first (Suc i) =
     heapSort_build lessf (siftDown_func lessf data (Suc i) hi first) hi first i"

fun heapSort_pop :: "('a \<Rightarrow> 'a \<Rightarrow> bool) \<Rightarrow> 'a list \<Rightarrow> nat \<Rightarrow> nat \<Rightarrow> 'a list" where
  "heapSort_pop lessf data first 0 = data"
| "heapSort_pop lessf data first (Suc i) =
     heapSort_pop lessf (siftDown_func lessf (Swap data first (first + i)) 0 i first) first i"

definition heapSort_func :: "('a \<Rightarrow> 'a \<Rightarrow> bool) \<Rightarrow> 'a list \<Rightarrow> nat \<Rightarrow> nat \<Rightarrow> 'a list" where
  "heapSort_func lessf data a b =
     (let first = a; hi = b - a;
          data = heapSort_build lessf data hi first ((hi - 1) div 2)
      in heapSort_pop lessf data first hi)"

text \<open>\<open>bits.Len\<close>, the xorshift step with the shifts 13, 7 and 17, and \<open>breakPatterns\<close>.\<close>

fun bits_Len :: "nat \<Rightarrow> nat" where
  "bits_Len n = (if n = 0 then 0 else Suc (bits_Len (n div 2)))"

declare bits_Len.simps [simp del]

definition xorshift_Next :: "64 word \<Rightarrow> 64 word" where
  "xorshift_Next r =
     (let r = r XOR push_bit 13 r;
          r = r XOR drop_bit 7 r;
          r = r XOR push_bit 17 r
      in r)"

fun breakPatterns_loop ::
  "(64 word \<Rightarrow> 64 word) \<Rightarrow> 'a list \<Rightarrow> nat \<Rightarrow> nat \<Rightarrow> nat \<Rightarrow> nat \<Rightarrow> 64 word \<Rightarrow> nat \<Rightarrow> nat \<Rightarrow> 'a list" where
  "breakPatterns_loop rnd data a len modulus idx rand i 0 = data"
| "breakPatterns_loop rnd data a len modulus idx rand i (Suc n) =
     (let rand = rnd rand;
          other = unat rand mod modulus;
          other = (if other \<ge> len then other - len else other)
      in breakPatterns_loop rnd (Swap data (idx - 1 + i) (a + other)) a len modulus idx
           rand (i + 1) n)"

definition breakPatterns_func ::
  "(64 word \<Rightarrow> 64 word) \<Rightarrow> 'a list \<Rightarrow> nat \<Rightarrow> nat \<Rightarrow> 'a list" where
  "breakPatterns_func rnd data a b =
     (let len = b - a in
      if len \<ge> 8
      then breakPatterns_loop rnd data a len (2 ^ bits_Len len)
             (a + (len div 4) * 2) (word_of_nat len) 0 3
      else data)"

text \<open>Choosing the pivot: the median of three, or of three medians for 50 elements and more.\<close>

datatype sortedHint = unknownHint | increasingHint | decreasingHint

definition order2_func ::
  "('a \<Rightarrow> 'a \<Rightarrow> bool) \<Rightarrow> 'a list \<Rightarrow> nat \<Rightarrow> nat \<Rightarrow> nat \<Rightarrow> nat \<times> nat \<times> nat" where
  "order2_func lessf data a b swaps =
     (if lessf (data ! b) (data ! a) then (b, a, swaps + 1) else (a, b, swaps))"

definition median_func ::
  "('a \<Rightarrow> 'a \<Rightarrow> bool) \<Rightarrow> 'a list \<Rightarrow> nat \<Rightarrow> nat \<Rightarrow> nat \<Rightarrow> nat \<Rightarrow> nat \<times> nat" where
  "median_func lessf data a b c swaps =
     (case order2_func lessf data a b swaps of (a, b, swaps) \<Rightarrow>
      case order2_func lessf data b c swaps of (b, c, swaps) \<Rightarrow>
      case order2_func lessf data a b swaps of (a, b, swaps) \<Rightarrow> (b, swaps))"

definition medianAdjacent_func ::
  "('a \<Rightarrow> 'a \<Rightarrow> bool) \<Rightarrow> 'a list \<Rightarrow> nat \<Rightarrow> nat \<Rightarrow> nat \<times> nat" where
  "medianAdjacent_func lessf data a swaps = median_func lessf data (a - 1) a (a + 1) swaps"

definition choosePivot_func ::
  "('a \<Rightarrow> 'a \<Rightarrow> bool) \<Rightarrow> 'a list \<Rightarrow> nat \<Rightarrow> nat \<Rightarrow> nat \<times> sortedHint" where
  "choosePivot_func lessf data a b =
     (let l = b - a;
          i = a + l div 4 * 1;
          j = a + l div 4 * 2;
          k = a + l div 4 * 3;
          (j, swaps) =
            (if l \<ge> 8 then
               (if l \<ge> 50 then
                  (case medianAdjacent_func lessf data i 0 of (i, swaps) \<Rightarrow>
                   case medianAdjacent_func lessf data j swaps of (j, swaps) \<Rightarrow>
                   case medianAdjacent_func lessf data k swaps of (k, swaps) \<Rightarrow>
                     median_func lessf data i j k swaps)
                else median_func lessf data i j k 0)
             else (j, 0))
      in if swaps = 0 then (j, increasingHint)
         else if swaps = 4 * 3 then (j, decreasingHint)
         else (j, unknownHint))"

function reverseRange_loop :: "'a list \<Rightarrow> nat \<Rightarrow> nat \<Rightarrow> 'a list" where
  "reverseRange_loop data i j =
     (if i < j then reverseRange_loop (Swap data i j) (i + 1) (j - 1) else data)"
  by pat_completeness auto
termination
  by (relation "measure (\<lambda>(data, i, j). j - i)") auto

declare reverseRange_loop.simps [simp del]

definition reverseRange_func :: "'a list \<Rightarrow> nat \<Rightarrow> nat \<Rightarrow> 'a list" where
  "reverseRange_func data a b = reverseRange_loop data a (b - 1)"

text \<open>
  The two scans of the partitioning loops: \<open>for i <= j && P(i) { i++ }\<close> and
  \<open>for i <= j && P(j) { j-- }\<close>. In the callers \<open>i\<close> is at least \<open>a + 1\<close>, so \<open>j\<close>
  stays non-negative.
\<close>

function scan_up :: "(nat \<Rightarrow> bool) \<Rightarrow> nat \<Rightarrow> nat \<Rightarrow> nat" where
  "scan_up P i j = (if i \<le> j \<and> P i then scan_up P (i + 1) j else i)"
  by pat_completeness auto
termination
  by (relation "measure (\<lambda>(P, i, j). Suc j - i)") auto

declare scan_up.simps [simp del]

fun scan_down :: "(nat \<Rightarrow> bool) \<Rightarrow> nat \<Rightarrow> nat \<Rightarrow> nat" where
  "scan_down P i 0 = 0"
| "scan_down P i (Suc j) = (if i \<le> Suc j \<and> P (Suc j) then scan_down P i j else Suc j)"

text \<open>\<open>partialInsertionSort\<close>: at most five steps, and no shifting below 50 elements.\<close>

function scan_sorted :: "('a \<Rightarrow> 'a \<Rightarrow> bool) \<Rightarrow> 'a list \<Rightarrow> nat \<Rightarrow> nat \<Rightarrow> nat" where
  "scan_sorted lessf data b i =
     (if i < b \<and> \<not> lessf (data ! i) (data ! (i - 1)) then scan_sorted lessf data b (i + 1)
      else i)"
  by pat_completeness auto
termination
  by (relation "measure (\<lambda>(lessf, data, b, i). b - i)") auto

fun shift_left :: "('a \<Rightarrow> 'a \<Rightarrow> bool) \<Rightarrow> 'a list \<Rightarrow> nat \<Rightarrow> 'a list" where
  "shift_left lessf data j =
     (if j \<ge> 1 \<and> lessf (data ! j) (data ! (j - 1))
      then shift_left lessf (Swap data j (j - 1)) (j - 1) else data)"

function shift_right :: "('a \<Rightarrow> 'a \<Rightarrow> bool) \<Rightarrow> 'a list \<Rightarrow> nat \<Rightarrow> nat \<Rightarrow> 'a list" where
  "shift_right lessf data b j =
     (if j < b \<and> lessf (data ! j) (data ! (j - 1))
      then shift_right lessf (Swap data j (j - 1)) b (j + 1) else data)"
  by pat_completeness auto
termination
  by (relation "measure (\<lambda>(lessf, data, b, j). b - j)") auto

declare scan_sorted.simps [simp del] shift_left.simps [simp del] shift_right.simps [simp del]

fun partialInsertionSort_loop ::
  "('a \<Rightarrow> 'a \<Rightarrow> bool) \<Rightarrow> 'a list \<Rightarrow> nat \<Rightarrow> nat \<Rightarrow> nat \<Rightarrow> nat \<Rightarrow> 'a list \<times> bool" where
  "partialInsertionSort_loop lessf data a b i 0 = (data, False)"
| "partialInsertionSort_loop lessf data a b i (Suc n) =
     (let i = scan_sorted lessf data b i in
      if i = b then (data, True)
      else if b - a < 50 then (data, False)
      else
        let data = Swap data i (i - 1);
            data = (if i - a \<ge> 2 then shift_left lessf data (i - 1) else data);
            data = (if b - i \<ge> 2 then shift_right lessf data b (i + 1) else data)
        in partialInsertionSort_loop lessf data a b i n)"

definition partialInsertionSort_func ::
  "('a \<Rightarrow> 'a \<Rightarrow> bool) \<Rightarrow> 'a list \<Rightarrow> nat \<Rightarrow> nat \<Rightarrow> 'a list \<times> bool" where
  "partialInsertionSort_func lessf data a b = partialInsertionSort_loop lessf data a b (a + 1) 5"

text \<open>Bounds of the scans, for the termination of the loops built on them.\<close>

lemma scan_up_ge: "i \<le> scan_up P i j"
proof (induction P i j rule: scan_up.induct)
  case (1 P i j)
  then show ?case by (subst scan_up.simps) auto
qed

lemma scan_up_le: "i \<le> Suc j \<Longrightarrow> scan_up P i j \<le> Suc j"
proof (induction P i j rule: scan_up.induct)
  case (1 P i j)
  then show ?case by (subst scan_up.simps) auto
qed

lemma scan_down_le: "scan_down P i j \<le> j"
  by (induction j) auto

lemma scan_down_ge: "i \<le> Suc j \<Longrightarrow> i \<le> Suc (scan_down P i j)"
  by (induction j) auto

function partitionEqual_loop ::
  "('a \<Rightarrow> 'a \<Rightarrow> bool) \<Rightarrow> 'a list \<Rightarrow> nat \<Rightarrow> nat \<Rightarrow> nat \<Rightarrow> 'a list \<times> nat" where
  "partitionEqual_loop lessf data a i j =
     (let i = scan_up (\<lambda>i. \<not> lessf (data ! a) (data ! i)) i j;
          j = scan_down (\<lambda>j. lessf (data ! a) (data ! j)) i j
      in if i > j then (data, i)
         else partitionEqual_loop lessf (Swap data i j) a (i + 1) (j - 1))"
  by pat_completeness auto
termination
proof (relation "measure (\<lambda>(lessf, data, a, i, j). Suc j - i)", goal_cases)
  case 1
  show ?case by simp
next
  case (2 lessf data a i j x xa)
  have "i \<le> x" using 2(1) scan_up_ge by simp
  moreover have "xa \<le> j" using 2(2) scan_down_le by simp
  ultimately show ?case using 2(3) by simp
qed

definition partitionEqual_func ::
  "('a \<Rightarrow> 'a \<Rightarrow> bool) \<Rightarrow> 'a list \<Rightarrow> nat \<Rightarrow> nat \<Rightarrow> nat \<Rightarrow> 'a list \<times> nat" where
  "partitionEqual_func lessf data a b pivot =
     partitionEqual_loop lessf (Swap data a pivot) a (a + 1) (b - 1)"

function partition_loop ::
  "('a \<Rightarrow> 'a \<Rightarrow> bool) \<Rightarrow> 'a list \<Rightarrow> nat \<Rightarrow> nat \<Rightarrow> nat \<Rightarrow> 'a list \<times> nat" where
  "partition_loop lessf data a i j =
     (let i = scan_up (\<lambda>i. lessf (data ! i) (data ! a)) i j;
          j = scan_down (\<lambda>j. \<not> lessf (data ! j) (data ! a)) i j
      in if i > j then (data, j)
         else partition_loop lessf (Swap data i j) a (i + 1) (j - 1))"
  by pat_completeness auto
termination
proof (relation "measure (\<lambda>(lessf, data, a, i, j). Suc j - i)", goal_cases)
  case 1
  show ?case by simp
next
  case (2 lessf data a i j x xa)
  have "i \<le> x" using 2(1) scan_up_ge by simp
  moreover have "xa \<le> j" using 2(2) scan_down_le by simp
  ultimately show ?case using 2(3) by simp
qed

definition partition_func ::
  "('a \<Rightarrow> 'a \<Rightarrow> bool) \<Rightarrow> 'a list \<Rightarrow> nat \<Rightarrow> nat \<Rightarrow> nat \<Rightarrow> 'a list \<times> nat \<times> bool" where
  "partition_func lessf data a b pivot =
     (let data = Swap data a pivot;
          i = scan_up (\<lambda>i. lessf (data ! i) (data ! a)) (a + 1) (b - 1);
          j = scan_down (\<lambda>j. \<not> lessf (data ! j) (data ! a)) i (b - 1)
      in if i > j then (Swap data j a, j, True)
         else
           (case partition_loop lessf (Swap data i j) a (i + 1) (j - 1) of
              (data, j) \<Rightarrow> (Swap data j a, j, False)))"

declare partitionEqual_loop.simps [simp del] partition_loop.simps [simp del]

lemma partitionEqual_loop_ge: "i \<le> snd (partitionEqual_loop lessf data a i j)"
proof (induction lessf data a i j rule: partitionEqual_loop.induct)
  case (1 lessf data a i j)
  define i1 where "i1 = scan_up (\<lambda>i. \<not> lessf (data ! a) (data ! i)) i j"
  define j1 where "j1 = scan_down (\<lambda>j. lessf (data ! a) (data ! j)) i1 j"
  have ge: "i \<le> i1" unfolding i1_def by (rule scan_up_ge)
  show ?case
  proof (cases "i1 > j1")
    case True
    then show ?thesis using ge
      by (subst partitionEqual_loop.simps) (simp add: Let_def i1_def [symmetric] j1_def [symmetric])
  next
    case False
    with 1 [OF i1_def j1_def] have "i1 + 1 \<le> snd (partitionEqual_loop lessf (Swap data i1 j1) a (i1 + 1) (j1 - 1))"
      by simp
    then show ?thesis using ge False
      by (subst partitionEqual_loop.simps) (simp add: Let_def i1_def [symmetric] j1_def [symmetric])
  qed
qed

lemma partitionEqual_func_gt: "a < snd (partitionEqual_func lessf data a b pivot)"
  using partitionEqual_loop_ge [of "a + 1" lessf "Swap data a pivot" a "b - 1"]
  by (simp add: partitionEqual_func_def)

lemma partition_loop_le: "snd (partition_loop lessf data a i j) \<le> j"
proof (induction lessf data a i j rule: partition_loop.induct)
  case (1 lessf data a i j)
  define i1 where "i1 = scan_up (\<lambda>i. lessf (data ! i) (data ! a)) i j"
  define j1 where "j1 = scan_down (\<lambda>j. \<not> lessf (data ! j) (data ! a)) i1 j"
  have le: "j1 \<le> j" unfolding j1_def by (rule scan_down_le)
  show ?case
  proof (cases "i1 > j1")
    case True
    then show ?thesis using le
      by (subst partition_loop.simps) (simp add: Let_def i1_def [symmetric] j1_def [symmetric])
  next
    case False
    with 1 [OF i1_def j1_def] have "snd (partition_loop lessf (Swap data i1 j1) a (i1 + 1) (j1 - 1)) \<le> j1 - 1"
      by simp
    then show ?thesis using le False
      by (subst partition_loop.simps) (simp add: Let_def i1_def [symmetric] j1_def [symmetric])
  qed
qed

lemma partition_loop_ge:
  "i \<le> Suc (Suc j) \<Longrightarrow> i \<le> Suc (Suc (snd (partition_loop lessf data a i j)))"
proof (induction lessf data a i j rule: partition_loop.induct)
  case (1 lessf data a i j)
  define i1 where "i1 = scan_up (\<lambda>i. lessf (data ! i) (data ! a)) i j"
  define j1 where "j1 = scan_down (\<lambda>j. \<not> lessf (data ! j) (data ! a)) i1 j"
  have ge: "i \<le> i1" unfolding i1_def by (rule scan_up_ge)
  have i1_le: "i1 \<le> Suc (Suc j)"
  proof (cases "i \<le> Suc j")
    case True
    then show ?thesis using scan_up_le [of i j] by (simp add: i1_def le_Suc_eq)
  next
    case False
    then have "i1 = i" unfolding i1_def by (subst scan_up.simps) simp
    then show ?thesis using 1(2) by simp
  qed
  have j1_ge: "i1 \<le> Suc (Suc j1)"
  proof (cases "i1 \<le> Suc j")
    case True
    then show ?thesis using scan_down_ge [of i1 j] by (simp add: j1_def le_Suc_eq)
  next
    case False
    then have "j1 = j" unfolding j1_def by (cases j) auto
    then show ?thesis using i1_le by simp
  qed
  show ?case
  proof (cases "i1 > j1")
    case True
    then show ?thesis using ge j1_ge
      by (subst partition_loop.simps) (simp add: Let_def i1_def [symmetric] j1_def [symmetric])
  next
    case False
    then have "i1 + 1 \<le> Suc (Suc (j1 - 1))" by simp
    with 1(1) [OF i1_def j1_def] False
    have "i1 + 1 \<le> Suc (Suc (snd (partition_loop lessf (Swap data i1 j1) a (i1 + 1) (j1 - 1))))"
      by simp
    then show ?thesis using ge False
      by (subst partition_loop.simps) (simp add: Let_def i1_def [symmetric] j1_def [symmetric])
  qed
qed

lemma partition_func_bounds:
  assumes "a < b"
  shows "a \<le> fst (snd (partition_func lessf data a b pivot))"
    and "fst (snd (partition_func lessf data a b pivot)) < b"
proof -
  define d where "d = Swap data a pivot"
  define i0 where "i0 = scan_up (\<lambda>i. lessf (d ! i) (d ! a)) (a + 1) (b - 1)"
  define j0 where "j0 = scan_down (\<lambda>j. \<not> lessf (d ! j) (d ! a)) i0 (b - 1)"
  have i0_ge: "a + 1 \<le> i0" unfolding i0_def by (rule scan_up_ge)
  have i0_le: "i0 \<le> b" using scan_up_le [of "a + 1" "b - 1"] assms by (simp add: i0_def)
  have j0_le: "j0 \<le> b - 1" unfolding j0_def by (rule scan_down_le)
  have j0_ge: "i0 \<le> Suc j0" using scan_down_ge [of i0 "b - 1"] i0_le assms by (simp add: j0_def)
  have eq: "fst (snd (partition_func lessf data a b pivot)) =
      (if i0 > j0 then j0 else snd (partition_loop lessf (Swap d i0 j0) a (i0 + 1) (j0 - 1)))"
    unfolding partition_func_def Let_def d_def i0_def j0_def
    by (simp add: case_prod_beta)
  show "a \<le> fst (snd (partition_func lessf data a b pivot))"
  proof (cases "i0 > j0")
    case True
    then show ?thesis using eq i0_ge j0_ge by simp
  next
    case False
    then have "i0 + 1 \<le> Suc (Suc (j0 - 1))" by simp
    from partition_loop_ge [OF this, of lessf "Swap d i0 j0" a]
    have "i0 \<le> Suc (snd (partition_loop lessf (Swap d i0 j0) a (i0 + 1) (j0 - 1)))" by simp
    then show ?thesis using eq False i0_ge by simp
  qed
  show "fst (snd (partition_func lessf data a b pivot)) < b"
  proof (cases "i0 > j0")
    case True
    then show ?thesis using eq j0_le assms by simp
  next
    case False
    have "snd (partition_loop lessf (Swap d i0 j0) a (i0 + 1) (j0 - 1)) \<le> j0 - 1"
      by (rule partition_loop_le)
    then show ?thesis using eq False j0_le assms by simp
  qed
qed

lemma partitionEqual_func_mid:
  "(d, mid) = partitionEqual_func lessf data a b pivot \<Longrightarrow> a < mid"
  using partitionEqual_func_gt [of a lessf data b pivot] by (cases "partitionEqual_func lessf data a b pivot") simp

lemma partitionEqual_func_measure:
  "(d, mid) = partitionEqual_func lessf data a b pivot \<Longrightarrow> \<not> b - a \<le> 12 \<Longrightarrow>
   b - mid < b - a"
  using partitionEqual_func_mid [of d mid lessf data a b pivot] by simp

lemma partition_func_mid:
  "(d, y) = partition_func lessf data a b pivot \<Longrightarrow> (mid, ap) = y \<Longrightarrow> a < b \<Longrightarrow>
   a \<le> mid \<and> mid < b"
  using partition_func_bounds [of a b lessf data pivot]
  by (cases "partition_func lessf data a b pivot") auto

lemma partition_func_measure_left:
  "(d, y) = partition_func lessf data a b pivot \<Longrightarrow> (mid, ap) = y \<Longrightarrow>
   \<not> b - a \<le> 12 \<Longrightarrow> mid - a < b - a"
  using partition_func_mid [of d y lessf data a b pivot mid ap] by (cases "a < b") auto

lemma partition_func_measure_right:
  "(d, y) = partition_func lessf data a b pivot \<Longrightarrow> (mid, ap) = y \<Longrightarrow>
   \<not> b - a \<le> 12 \<Longrightarrow> b - Suc mid < b - a"
  using partition_func_mid [of d y lessf data a b pivot mid ap] by (cases "a < b") auto

text \<open>
  \<open>pdqsort_func\<close>: the loop of the source is the tail call, the recursion on the smaller
  side is the inner call; \<open>wasBalanced\<close> and \<open>wasPartitioned\<close> are the loop's variables.
\<close>

function pdqsort_func ::
  "(64 word \<Rightarrow> 64 word) \<Rightarrow> ('a \<Rightarrow> 'a \<Rightarrow> bool) \<Rightarrow> 'a list \<Rightarrow> nat \<Rightarrow> nat \<Rightarrow> nat \<Rightarrow> bool \<Rightarrow> bool \<Rightarrow> 'a list" where
  "pdqsort_func rnd lessf data a b limit wasBalanced wasPartitioned =
     (let len = b - a in
      if len \<le> 12 then insertionSort_func lessf data a b
      else if limit = 0 then heapSort_func lessf data a b
      else
        let (data, limit) =
              (if \<not> wasBalanced then (breakPatterns_func rnd data a b, limit - 1)
               else (data, limit));
            (pivot, hint) = choosePivot_func lessf data a b;
            (data, pivot, hint) =
              (if hint = decreasingHint
               then (reverseRange_func data a b, (b - 1) - (pivot - a), increasingHint)
               else (data, pivot, hint));
            (data, done) =
              (if wasBalanced \<and> wasPartitioned \<and> hint = increasingHint
               then partialInsertionSort_func lessf data a b
               else (data, False))
        in if done then data
           else if a > 0 \<and> \<not> lessf (data ! (a - 1)) (data ! pivot) then
             (case partitionEqual_func lessf data a b pivot of
                (data, mid) \<Rightarrow>
                  pdqsort_func rnd lessf data mid b limit wasBalanced wasPartitioned)
           else
             (case partition_func lessf data a b pivot of
                (data, mid, alreadyPartitioned) \<Rightarrow>
                  let leftLen = mid - a;
                      rightLen = b - mid;
                      balanceThreshold = len div 8
                  in if leftLen < rightLen then
                       pdqsort_func rnd lessf
                         (pdqsort_func rnd lessf data a mid limit True True)
                         (mid + 1) b limit (leftLen \<ge> balanceThreshold) alreadyPartitioned
                     else
                       pdqsort_func rnd lessf
                         (pdqsort_func rnd lessf data (mid + 1) b limit True True)
                         a mid limit (rightLen \<ge> balanceThreshold) alreadyPartitioned))"
  by pat_completeness auto
termination
  apply (relation "measure (\<lambda>(rnd, lessf, data, a, b, limit, wb, wp). b - a)")
       apply simp
      apply (simp, rule partitionEqual_func_measure; assumption)
     apply (simp, rule partition_func_measure_left; assumption)
    apply (simp, rule partition_func_measure_right; assumption)
   apply (simp, rule partition_func_measure_right; assumption)
  apply (simp, rule partition_func_measure_left; assumption)
  done

declare pdqsort_func.simps [simp del]

definition sort_Slice :: "(64 word \<Rightarrow> 64 word) \<Rightarrow> 'a sorter" where
  "sort_Slice rnd lessf data =
     (let len = length data; limit = bits_Len len
      in pdqsort_func rnd lessf data 0 len limit True True)"

section \<open>Requests and hubs to run the code on\<close>

text \<open>The request built in \<open>main\<close>, and replies Wise's backend may give.\<close>

definition main_recipient :: Recipient where
  "main_recipient =
     \<lparr>ID = ''recipient-123'', Name = ''John Doe'', Email = ''john@example.com'',
      Phone = ''+1234567890'',
      Address = \<lparr>Street = ''123 Main St'', City = ''Manila'', State = [], PostalCode = [],
                 Country = ''Philippines'', CountryCode = ''PH''\<rparr>,
      BankDetails = []\<rparr>"

definition main_request :: TransactionRequest where
  "main_request =
     \<lparr>SenderID = ''sender-456'', Recipient = main_recipient, Amount = 1000,
      FromCurrency = USD, ToCurrency = PHP, PaymentMethod = PaymentBankTransfer,
      Purpose = ''Family support'', Reference = ''REF-001''\<rparr>"

definition quote_reply :: upstream where
  "quote_reply =
     Response (JSON (JObject [(''fee'', JNumber ''15'' 15), (''rate'', JNumber ''1.2'' (12 / 10)),
                              (''targetAmount'', JNumber ''1200'' 1200)]))"

definition transfer_reply :: upstream where
  "transfer_reply = Response (JSON (JObject [(''id'', JString ''T-1'')]))"

text \<open>A reply that is well-formed JSON and carries an error message instead of a quote.\<close>

definition unauthorized_reply :: upstream where
  "unauthorized_reply =
     Response (JSON (JObject [(''error'', JString ''unauthorized''),
                              (''error_description'', JString ''Invalid token'')]))"

definition main_service :: WalletRemittanceService where
  "main_service = NewWalletRemittanceService 1700000000 quote_reply transfer_reply"

text \<open>The wallet service when Wise's backend cannot be reached.\<close>

definition wise_down_service :: WalletRemittanceService where
  "wise_down_service =
     NewWalletRemittanceService 1700000000 (ClientFailure ''connection refused'') transfer_reply"

text \<open>A hub that holds Wise alone, its backend unreachable.\<close>

definition wise_only_hub :: RemittanceHub where
  "wise_only_hub =
     AddProvider NewRemittanceHub
       (Wise 1700000000 (ClientFailure ''connection refused'') transfer_reply)"

text \<open>The request of \<open>main\<close> in currencies that no adapter supports.\<close>

definition yen_request :: TransactionRequest where
  "yen_request = main_request\<lparr>FromCurrency := ''JPY'', ToCurrency := ''KRW''\<rparr>"

text \<open>
  An adapter with a flat fee, as WorldRemit's is, under a name and a fee of choice, and a
  hub of thirteen of them: the first two charge 9, the others 1 to 5 and 10 to 15.
\<close>

definition flat_fee_quote :: "string \<Rightarrow> float64 \<Rightarrow> TransactionRequest \<Rightarrow> RemittanceQuote" where
  "flat_fee_quote name fee req =
     \<lparr>Provider = name,
      Amount = TransactionRequest.Amount req,
      Fee = fee,
      ExchangeRate = float64_round (118 / 100),
      TotalCost = float64_add (TransactionRequest.Amount req) fee,
      ReceivedAmount = float64_mul (TransactionRequest.Amount req) (float64_round (118 / 100)),
      EstimatedTime = ''Minutes'',
      ValidUntil = 1700000900\<rparr>"

definition flat_fee_provider :: "string \<Rightarrow> float64 \<Rightarrow> RemittanceProvider" where
  "flat_fee_provider name fee =
     \<lparr>GetName = name,
      GetSupportedCurrencies = [USD, PHP],
      GetSupportedCountries = [''US'', ''PH''],
      GetQuote = (\<lambda>req. Ok (flat_fee_quote name fee req)),
      SendMoney = (\<lambda>req. Err (ClientError ''not implemented''))\<rparr>"

definition thirteen_fees :: "(string \<times> float64) list" where
  "thirteen_fees =
     [(''P01'', 9), (''P02'', 9), (''P03'', 1), (''P04'', 2), (''P05'', 3), (''P06'', 4),
      (''P07'', 5), (''P08'', 10), (''P09'', 11), (''P10'', 12), (''P11'', 13),
      (''P12'', 14), (''P13'', 15)]"

definition thirteen_hub :: RemittanceHub where
  "thirteen_hub =
     foldl AddProvider NewRemittanceHub (map (\<lambda>(name, fee). flat_fee_provider name fee) thirteen_fees)"

text \<open>The hub of the first twelve flat-fee adapters, and the orders the library sort gives.\<close>

definition twelve_hub :: RemittanceHub where
  "twelve_hub =
     foldl AddProvider NewRemittanceHub
       (map (\<lambda>(name, fee). flat_fee_provider name fee) (butlast thirteen_fees))"

definition twelve_sorted :: "RemittanceQuote list" where
  "twelve_sorted =
     map (\<lambda>(name, fee). flat_fee_quote name fee main_request)
       [(''P03'', 1), (''P04'', 2), (''P05'', 3), (''P06'', 4), (''P07'', 5), (''P01'', 9),
        (''P02'', 9), (''P08'', 10), (''P09'', 11), (''P10'', 12), (''P11'', 13),
        (''P12'', 14)]"

definition thirteen_sorted :: "RemittanceQuote list" where
  "thirteen_sorted =
     map (\<lambda>(name, fee). flat_fee_quote name fee main_request)
       [(''P03'', 1), (''P04'', 2), (''P05'', 3), (''P06'', 4), (''P07'', 5), (''P02'', 9),
        (''P01'', 9), (''P08'', 10), (''P09'', 11), (''P10'', 12), (''P11'', 13),
        (''P12'', 14), (''P13'', 15)]"

text \<open>
  The request of \<open>main\<close> for a tenth of a dollar and for \<open>1e17\<close> dollars, and the quotes
  that Remitly gives for the first and WorldRemit for the second, the \<open>float64\<close> numbers
  written as fractions.
\<close>

definition small_request :: TransactionRequest where
  "small_request = main_request\<lparr>TransactionRequest.Amount := float64_round (1 / 10)\<rparr>"

definition large_request :: TransactionRequest where
  "large_request = main_request\<lparr>TransactionRequest.Amount := 100000000000000000\<rparr>"

definition remitly_small_quote :: RemittanceQuote where
  "remitly_small_quote =
     \<lparr>Provider = ''Remitly'',
      Amount = 3602879701896397 / 36028797018963968,
      Fee = 1152921504606847 / 576460752303423488,
      ExchangeRate = float64_round (115 / 100),
      TotalCost = 3674937295934325 / 36028797018963968,
      ReceivedAmount = 517913957147607 / 4503599627370496,
      EstimatedTime = ''Minutes to hours'',
      ValidUntil = 1700001800\<rparr>"

definition worldremit_large_quote :: RemittanceQuote where
  "worldremit_large_quote =
     \<lparr>Provider = ''WorldRemit'',
      Amount = 100000000000000000,
      Fee = float64_round (599 / 100),
      ExchangeRate = float64_round (118 / 100),
      TotalCost = 100000000000000000,
      ReceivedAmount = 118000000000000000,
      EstimatedTime = ''Minutes'',
      ValidUntil = 1700000900\<rparr>"

text \<open>A recipient in Kenya, which Wise and Remitly do not serve.\<close>

definition kenya_request :: TransactionRequest where
  "kenya_request =
     main_request\<lparr>SenderID := ''sender-in-GB'',
                  Recipient := main_recipient\<lparr>Address := Address main_recipient\<lparr>CountryCode := ''KE''\<rparr>\<rparr>\<rparr>"

section \<open>Auxiliary lemmas\<close>

subsection \<open>Rounding\<close>

text \<open>
  \<open>float64_round\<close> moves a number by at most half the spacing of the \<open>float64\<close>
  numbers around it, which from \<open>2 ^ -1022\<close> upwards is at most the number's magnitude
  divided by \<open>2 ^ 53\<close>.
\<close>

lemma round_half_even_error: "\<bar>of_int (round_half_even q) - q\<bar> \<le> 1 / 2"
proof -
  have "of_int \<lfloor>q\<rfloor> \<le> q" "q < of_int \<lfloor>q\<rfloor> + 1"
    by linarith+
  then show ?thesis
    by (auto simp: round_half_even_def Let_def)
qed

lemma binade_up_pos: "0 < p \<Longrightarrow> 0 < snd (binade_up n x e p)"
  by (induction n x e p rule: binade_up.induct) auto

lemma binade_down_pos: "0 < p \<Longrightarrow> 0 < snd (binade_down n x e p)"
  by (induction n x e p rule: binade_down.induct) auto

lemma binade_pos: "0 < snd (binade x)"
  by (simp add: binade_def binade_up_pos binade_down_pos)

lemma binade_up_le: "p \<le> x \<Longrightarrow> snd (binade_up n x e p) \<le> x"
  by (induction n x e p rule: binade_up.induct) auto

lemma binade_down_le: "p / 2 ^ n \<le> x \<Longrightarrow> snd (binade_down n x e p) \<le> x"
proof (induction n x e p rule: binade_down.induct)
  case (1 x e p)
  then show ?case by simp
next
  case (2 n x e p)
  then show ?case by (auto simp: field_simps)
qed

lemma binade_le: "1 / 2 ^ 1022 \<le> x \<Longrightarrow> snd (binade x) \<le> x"
  using binade_down_le [of 1 1022 x 0] by (simp add: binade_def binade_up_le)

lemma float64_round_error: "\<bar>float64_round x - x\<bar> \<le> snd (binade \<bar>x\<bar>) / 2 ^ 53"
proof (cases "x = 0")
  case True
  then show ?thesis
    using binade_pos [of 0] by (simp add: float64_round_def)
next
  case False
  define ulp where "ulp = snd (binade \<bar>x\<bar>) / 2 ^ 52"
  define n where "n = round_half_even (\<bar>x\<bar> / ulp)"
  have ulp: "0 < ulp"
    using binade_pos [of "\<bar>x\<bar>"] by (simp add: ulp_def)
  have "float64_round x - x = sgn x * (of_int n * ulp - \<bar>x\<bar>)"
    using False by (simp add: float64_round_def Let_def ulp_def n_def algebra_simps sgn_real_def)
  also have "\<bar>\<dots>\<bar> = \<bar>of_int n * ulp - \<bar>x\<bar>\<bar>"
    using False by (simp add: abs_mult sgn_real_def)
  also have "of_int n * ulp - \<bar>x\<bar> = ulp * (of_int n - \<bar>x\<bar> / ulp)"
    using ulp by (simp add: field_simps)
  also have "\<bar>\<dots>\<bar> = ulp * \<bar>of_int n - \<bar>x\<bar> / ulp\<bar>"
    using ulp by (simp add: abs_mult)
  also have "\<dots> \<le> ulp * (1 / 2)"
    using round_half_even_error [of "\<bar>x\<bar> / ulp"] ulp
    unfolding n_def by (intro mult_left_mono) auto
  also have "\<dots> = snd (binade \<bar>x\<bar>) / 2 ^ 53"
    by (simp add: ulp_def)
  finally show ?thesis .
qed

lemma float64_add_error:
  "\<bar>float64_add x y - (x + y)\<bar> \<le> snd (binade \<bar>x + y\<bar>) / 2 ^ 53"
  unfolding float64_add_def by (rule float64_round_error)

lemma float64_add_relative_error:
  assumes "1 / 2 ^ 1022 \<le> \<bar>x + y\<bar>"
  shows "\<bar>float64_add x y - (x + y)\<bar> \<le> \<bar>x + y\<bar> / 2 ^ 53"
proof -
  have "snd (binade \<bar>x + y\<bar>) / 2 ^ 53 \<le> \<bar>x + y\<bar> / 2 ^ 53"
    using binade_le [OF assms] by (simp add: divide_right_mono)
  with float64_add_error [of x y] show ?thesis
    by linarith
qed

subsection \<open>Eligibility\<close>

lemma supportsCurrencies_iff:
  "supportsCurrencies cs f t \<longleftrightarrow> f \<in> set cs \<or> t \<in> set cs"
  by (induction cs) auto

lemma supportsCountries_iff:
  "supportsCountries cs f t \<longleftrightarrow> f \<in> set cs \<or> t \<in> set cs"
  by (induction cs) auto

lemma GetAvailableProviders_loop_filter:
  "GetAvailableProviders_loop ps fco tco fcu tcu acc =
     acc @ filter (\<lambda>p. (fcu \<in> set (GetSupportedCurrencies p) \<or> tcu \<in> set (GetSupportedCurrencies p))
                      \<and> (fco \<in> set (GetSupportedCountries p) \<or> tco \<in> set (GetSupportedCountries p))) ps"
  by (induction ps arbitrary: acc) (simp_all add: supportsCurrencies_iff supportsCountries_iff)

lemma GetAvailableProviders_filter:
  "GetAvailableProviders rh fco tco fcu tcu =
     filter (\<lambda>p. (fcu \<in> set (GetSupportedCurrencies p) \<or> tcu \<in> set (GetSupportedCurrencies p))
                \<and> (fco \<in> set (GetSupportedCountries p) \<or> tco \<in> set (GetSupportedCountries p)))
            (providers rh)"
  by (simp add: GetAvailableProviders_def GetAvailableProviders_loop_filter)

subsection \<open>The quote loop\<close>

lemma GetQuotes_loop_not_Err:
  "fst (GetQuotes_loop ps req qs tr) \<noteq> Err e"
  by (induction ps arbitrary: qs tr) (simp_all split: result.splits)

lemma GetQuotes_loop_Ok:
  "\<forall>p\<in>set ps. \<forall>m. GetQuote p req \<noteq> Panic m \<Longrightarrow>
   fst (GetQuotes_loop ps req qs tr) = Ok (qs @ surviving_quotes ps req)"
  by (induction ps arbitrary: qs tr) (auto split: result.splits)

lemma GetQuotes_loop_Ok_surviving:
  "fst (GetQuotes_loop ps req qs tr) = Ok qs' \<Longrightarrow> qs' = qs @ surviving_quotes ps req"
  by (induction ps arbitrary: qs tr) (fastforce split: result.splits)+

lemma quote_calls_append:
  "quote_calls (xs @ ys) = quote_calls xs @ quote_calls ys"
  by (induction xs rule: quote_calls.induct) simp_all

lemma GetQuotes_loop_calls:
  "fst (GetQuotes_loop ps req qs tr) = Ok qs' \<Longrightarrow>
   quote_calls (snd (GetQuotes_loop ps req qs tr)) =
     quote_calls tr @ map (\<lambda>p. (GetName p, req)) ps"
  by (induction ps arbitrary: qs tr) (auto split: result.splits simp: quote_calls_append)

lemma GetQuotes_fst:
  "fst (GetQuotes srt rh req) =
     (case fst (GetQuotes_loop
                  (GetAvailableProviders rh ''US'' (CountryCode (Address (Recipient req)))
                     (FromCurrency req) (ToCurrency req)) req [] []) of
        Ok quotes \<Rightarrow> Ok (srt (\<lambda>a b. TotalCost a < TotalCost b) quotes)
      | Err err \<Rightarrow> Err err
      | Panic m \<Rightarrow> Panic m)"
  by (simp add: GetQuotes_def Let_def split: prod.splits result.splits)

lemma GetQuotes_snd:
  "snd (GetQuotes srt rh req) =
     snd (GetQuotes_loop
            (GetAvailableProviders rh ''US'' (CountryCode (Address (Recipient req)))
               (FromCurrency req) (ToCurrency req)) req [] [])"
  by (simp add: GetQuotes_def Let_def split: prod.splits result.splits)

lemma sort_Slice_contract_mset:
  "sort_Slice_contract srt \<Longrightarrow> mset (srt (\<lambda>a b. TotalCost a < TotalCost b) xs) = mset xs"
  by (simp add: sort_Slice_contract_def)

lemma sort_Slice_contract_sorted:
  "sort_Slice_contract srt \<Longrightarrow>
   sorted (map TotalCost (srt (\<lambda>a b. TotalCost a < TotalCost b) xs))"
  by (simp add: sort_Slice_contract_def sorted_map not_less)

lemma sort_Slice_contract_Nil:
  "sort_Slice_contract srt \<Longrightarrow> srt (\<lambda>a b. TotalCost a < TotalCost b) [] = []"
  using sort_Slice_contract_mset [of srt "[]"] by simp

lemma surviving_quotes_append:
  "surviving_quotes (ps @ ps') req = surviving_quotes ps req @ surviving_quotes ps' req"
  by (induction ps) (simp_all split: result.splits)

lemma surviving_quotes_all_Err:
  "\<forall>p\<in>set ps. \<exists>e. GetQuote p req = Err e \<Longrightarrow> surviving_quotes ps req = []"
  by (induction ps) auto

lemma surviving_quotes_all_Ok:
  "\<forall>p\<in>set ps. \<exists>q. GetQuote p req = Ok q \<Longrightarrow> length (surviving_quotes ps req) = length ps"
  by (induction ps) auto

lemma GetQuotes_Ok_iff:
  "fst (GetQuotes srt rh req) = Ok qs \<Longrightarrow>
   qs = srt (\<lambda>a b. TotalCost a < TotalCost b)
          (surviving_quotes
             (GetAvailableProviders rh ''US'' (CountryCode (Address (Recipient req)))
                (FromCurrency req) (ToCurrency req)) req)"
  by (auto simp: GetQuotes_fst split: result.splits dest: GetQuotes_loop_Ok_surviving)

lemma GetQuotes_no_panic:
  "\<forall>p\<in>set (GetAvailableProviders rh ''US'' (CountryCode (Address (Recipient req)))
             (FromCurrency req) (ToCurrency req)). \<forall>m. GetQuote p req \<noteq> Panic m \<Longrightarrow>
   fst (GetQuotes srt rh req) =
     Ok (srt (\<lambda>a b. TotalCost a < TotalCost b)
          (surviving_quotes
             (GetAvailableProviders rh ''US'' (CountryCode (Address (Recipient req)))
                (FromCurrency req) (ToCurrency req)) req))"
  by (simp add: GetQuotes_fst GetQuotes_loop_Ok)

lemma GetBestQuote_fst:
  "fst (GetBestQuote srt rh req) =
     (case fst (GetQuotes srt rh req) of
        Ok [] \<Rightarrow> Err ErrNoQuotes
      | Ok (q # qs) \<Rightarrow> Ok q
      | Err err \<Rightarrow> Err err
      | Panic m \<Rightarrow> Panic m)"
  by (simp add: GetBestQuote_def split: prod.splits result.splits list.splits)

lemma GetQuotes_not_Err: "fst (GetQuotes srt rh req) \<noteq> Err e"
  using GetQuotes_loop_not_Err
  by (simp add: GetQuotes_fst split: result.splits)

subsection \<open>Routing\<close>

lemma SendMoneyWithProvider_loop_not_found:
  "providerName \<notin> GetName ` set ps \<Longrightarrow>
   SendMoneyWithProvider_loop ps providerName req = (Err (ErrProviderNotFound providerName), [])"
  by (induction ps) auto

lemma SendMoneyWithProvider_loop_found:
  "find (\<lambda>p. GetName p = providerName) ps = Some p \<Longrightarrow>
   SendMoneyWithProvider_loop ps providerName req = (SendMoney p req, [SendCall providerName req])"
  by (induction ps) (auto split: if_splits)

subsection \<open>The insertion sort of the library is the stable sort\<close>

text \<open>
  \<open>insert_back\<close> is what the inner loop of \<open>insertionSort_func\<close> does to the sorted
  prefix, held in reverse: the new element moves left past the elements it is less than.
\<close>

fun insert_back :: "('a \<Rightarrow> 'a \<Rightarrow> bool) \<Rightarrow> 'a \<Rightarrow> 'a list \<Rightarrow> 'a list" where
  "insert_back lessf x [] = [x]"
| "insert_back lessf x (y # rs) =
     (if lessf x y then y # insert_back lessf x rs else x # y # rs)"

lemma Swap_adjacent:
  "Swap (ys @ y # x # zs) (Suc (length ys)) (length ys) = ys @ x # y # zs"
  by (simp add: Swap_def nth_append list_update_append)

lemma insertionSort_inner_insert_back:
  "insertionSort_inner lessf (rev rs @ x # zs) 0 (length rs) = rev (insert_back lessf x rs) @ zs"
proof (induction rs arbitrary: zs)
  case Nil
  show ?case by (subst insertionSort_inner.simps) simp
next
  case (Cons y rs)
  have nth1: "(rev rs @ y # x # zs) ! Suc (length rs) = x"
    by (simp add: nth_append)
  have nth0: "(rev rs @ y # x # zs) ! length rs = y"
    by (simp add: nth_append)
  show ?case
  proof (cases "lessf x y")
    case True
    have "insertionSort_inner lessf (rev (y # rs) @ x # zs) 0 (length (y # rs)) =
          insertionSort_inner lessf (Swap (rev rs @ y # x # zs) (Suc (length rs)) (length rs)) 0 (length rs)"
      by (subst insertionSort_inner.simps) (simp add: nth1 nth0 True)
    also have "\<dots> = insertionSort_inner lessf (rev rs @ x # y # zs) 0 (length rs)"
      using Swap_adjacent [of "rev rs" y x zs] by simp
    also have "\<dots> = rev (insert_back lessf x rs) @ y # zs"
      by (rule Cons.IH)
    finally show ?thesis using True by simp
  next
    case False
    then show ?thesis
      by (subst insertionSort_inner.simps) (simp add: nth1 nth0)
  qed
qed

lemma length_insert_back: "length (insert_back lessf x rs) = Suc (length rs)"
  by (induction rs) simp_all

lemma insertionSort_outer_foldl:
  "insertionSort_outer lessf (rev rs @ zs) 0 (length rs + length zs) (length rs) =
     rev (foldl (\<lambda>acc x. insert_back lessf x acc) rs zs)"
proof (induction zs arbitrary: rs)
  case Nil
  show ?case by (subst insertionSort_outer.simps) simp
next
  case (Cons x zs)
  have "insertionSort_outer lessf (rev rs @ x # zs) 0 (length rs + length (x # zs)) (length rs) =
        insertionSort_outer lessf (rev (insert_back lessf x rs) @ zs) 0
          (length (insert_back lessf x rs) + length zs) (length (insert_back lessf x rs))"
    by (subst insertionSort_outer.simps)
       (simp add: insertionSort_inner_insert_back length_insert_back)
  also have "\<dots> = rev (foldl (\<lambda>acc x. insert_back lessf x acc) (insert_back lessf x rs) zs)"
    by (rule Cons.IH)
  finally show ?case by simp
qed

lemma insertionSort_func_foldl:
  "insertionSort_func lessf xs 0 (length xs) = rev (foldl (\<lambda>acc x. insert_back lessf x acc) [] xs)"
proof (cases xs)
  case Nil
  then show ?thesis
    by (simp add: insertionSort_func_def) (subst insertionSort_outer.simps, simp)
next
  case (Cons x zs)
  then show ?thesis
    using insertionSort_outer_foldl [of lessf "[x]" zs]
    by (simp add: insertionSort_func_def)
qed

lemma mset_insert_back: "mset (insert_back lessf x rs) = add_mset x (mset rs)"
  by (induction rs) simp_all

lemma mset_foldl_insert_back:
  "mset (foldl (\<lambda>acc x. insert_back lessf x acc) rs zs) = mset rs + mset zs"
  by (induction zs arbitrary: rs) (simp_all add: mset_insert_back)

lemma set_insert_back: "set (insert_back lessf x rs) = insert x (set rs)"
  by (induction rs) auto

lemma sorted_insert_back:
  fixes f :: "'a \<Rightarrow> 'k::linorder"
  shows "sorted (map f (rev rs)) \<Longrightarrow> sorted (map f (rev (insert_back (\<lambda>a b. f a < f b) x rs)))"
  by (induction rs) (auto simp: sorted_append set_insert_back)

lemma sorted_foldl_insert_back:
  fixes f :: "'a \<Rightarrow> 'k::linorder"
  shows "sorted (map f (rev rs)) \<Longrightarrow>
     sorted (map f (rev (foldl (\<lambda>acc x. insert_back (\<lambda>a b. f a < f b) x acc) rs zs)))"
  by (induction zs arbitrary: rs) (simp_all add: sorted_insert_back)

lemma filter_insert_back:
  fixes f :: "'a \<Rightarrow> 'k::linorder"
  shows "filter (\<lambda>y. c = f y) (rev (insert_back (\<lambda>a b. f a < f b) x rs)) =
     filter (\<lambda>y. c = f y) (rev rs @ [x])"
  by (induction rs) auto

lemma filter_foldl_insert_back:
  fixes f :: "'a \<Rightarrow> 'k::linorder"
  shows "filter (\<lambda>y. c = f y) (rev (foldl (\<lambda>acc x. insert_back (\<lambda>a b. f a < f b) x acc) rs zs)) =
     filter (\<lambda>y. c = f y) (rev rs @ zs)"
  by (induction zs arbitrary: rs) (simp_all add: filter_insert_back)

lemma insertionSort_func_sort_key:
  fixes f :: "'a \<Rightarrow> 'k::linorder"
  shows "insertionSort_func (\<lambda>a b. f a < f b) xs 0 (length xs) = sort_key f xs"
proof -
  let ?ys = "rev (foldl (\<lambda>acc x. insert_back (\<lambda>a b. f a < f b) x acc) [] xs)"
  have "sort_key f xs = ?ys"
  proof (rule properties_for_sort_key)
    show "mset ?ys = mset xs" by (simp add: mset_foldl_insert_back)
    show "\<And>k. k \<in> set ?ys \<Longrightarrow> filter (\<lambda>x. f k = f x) ?ys = filter (\<lambda>x. f k = f x) xs"
      using filter_foldl_insert_back [of _ f "[]" xs] by simp
    show "sorted (map f ?ys)"
      using sorted_foldl_insert_back [of f "[]" xs] by simp
  qed
  then show ?thesis by (simp add: insertionSort_func_foldl)
qed

lemma sort_Slice_small:
  fixes f :: "'a \<Rightarrow> 'k::linorder"
  shows "length xs \<le> 12 \<Longrightarrow> sort_Slice rnd (\<lambda>a b. f a < f b) xs = sort_key f xs"
  by (simp add: sort_Slice_def Let_def insertionSort_func_sort_key)
     (subst pdqsort_func.simps, simp add: insertionSort_func_sort_key)

lemma insertionSort_contract:
  "sort_Slice_contract (\<lambda>lessf data. insertionSort_func lessf data 0 (length data))"
proof -
  have "sorted_wrt (\<lambda>a b. TotalCost a \<le> TotalCost b) (sort_key TotalCost xs)"
    for xs :: "RemittanceQuote list"
    using sorted_sort_key [of TotalCost xs] by (simp only: sorted_map)
  then show ?thesis
    unfolding sort_Slice_contract_def
    by (simp add: insertionSort_func_sort_key not_less)
qed

subsection \<open>The adapters and hubs of the demonstration\<close>

lemma main_service_providers:
  "providers (hub main_service) =
     [Wise 1700000000 quote_reply transfer_reply, Remitly 1700000000, WorldRemit 1700000000]"
  by (simp add: main_service_def NewWalletRemittanceService_def AddProvider_def
      NewRemittanceHub_def)

lemmas adapter_defs =
  Wise_def Remitly_def WorldRemit_def
  Wise_GetSupportedCurrencies_def Wise_GetSupportedCountries_def
  Remitly_GetSupportedCurrencies_def Remitly_GetSupportedCountries_def
  WorldRemit_GetSupportedCurrencies_def WorldRemit_GetSupportedCountries_def
  Wise_GetName_def Remitly_GetName_def WorldRemit_GetName_def
  USD_def EUR_def GBP_def INR_def PHP_def MXN_def

lemma Wise_GetQuote_main:
  "Wise_GetQuote 1700000000 quote_reply main_request =
     Ok \<lparr>Provider = ''Wise'', Amount = 1000, Fee = 15, ExchangeRate = float64_round (12 / 10),
         TotalCost = 1015, ReceivedAmount = 1200, EstimatedTime = ''1-2 business days'',
         ValidUntil = 1700086400\<rparr>"
  by code_simp

lemma Remitly_GetQuote_main:
  "Remitly_GetQuote 1700000000 main_request =
     Ok \<lparr>Provider = ''Remitly'', Amount = 1000, Fee = 20, ExchangeRate = float64_round (115 / 100),
         TotalCost = 1020, ReceivedAmount = 1150, EstimatedTime = ''Minutes to hours'',
         ValidUntil = 1700001800\<rparr>"
  by code_simp

lemma WorldRemit_GetQuote_main:
  "WorldRemit_GetQuote 1700000000 main_request =
     Ok \<lparr>Provider = ''WorldRemit'', Amount = 1000, Fee = float64_round (599 / 100),
         ExchangeRate = float64_round (118 / 100),
         TotalCost = 4424390809705513 / 4398046511104, ReceivedAmount = 1180, EstimatedTime = ''Minutes'',
         ValidUntil = 1700000900\<rparr>"
  by code_simp

lemma Remitly_GetQuote_small:
  "Remitly_GetQuote 1700000000 small_request = Ok remitly_small_quote"
  by code_simp

lemma WorldRemit_GetQuote_large:
  "WorldRemit_GetQuote 1700000000 large_request = Ok worldremit_large_quote"
  by code_simp

lemma wise_down_providers:
  "GetAvailableProviders (hub wise_down_service) ''US''
     (CountryCode (Address (Recipient main_request)))
     (FromCurrency main_request) (ToCurrency main_request) =
   [] @ Wise 1700000000 (ClientFailure ''connection refused'') transfer_reply
        # [Remitly 1700000000, WorldRemit 1700000000]"
  by (simp add: GetAvailableProviders_filter wise_down_service_def
      NewWalletRemittanceService_def AddProvider_def NewRemittanceHub_def
      main_request_def main_recipient_def adapter_defs)

lemma main_quotes:
  "fst (GetQuotes (sort_Slice xorshift_Next) (hub main_service) main_request) =
     Ok [flat_fee_quote ''WorldRemit'' (float64_round (599 / 100)) main_request,
         \<lparr>Provider = ''Wise'', Amount = 1000, Fee = 15, ExchangeRate = float64_round (12 / 10),
          TotalCost = 1015, ReceivedAmount = 1200, EstimatedTime = ''1-2 business days'',
          ValidUntil = 1700086400\<rparr>,
         \<lparr>Provider = ''Remitly'', Amount = 1000, Fee = 20, ExchangeRate = float64_round (115 / 100),
          TotalCost = 1020, ReceivedAmount = 1150, EstimatedTime = ''Minutes to hours'',
          ValidUntil = 1700001800\<rparr>]"
  by code_simp

lemma wise_only_quotes:
  "GetQuotes (sort_Slice xorshift_Next) wise_only_hub main_request =
     (Ok [], [QuoteCall ''Wise'' main_request,
              LogLine ''Error getting quote from Wise: connection refused''])"
  by code_simp

section \<open>Properties of the hub and the adapters\<close>

subsection \<open>Ranking\<close>

text \<open>
  C1, amended: when \<open>sort.Slice\<close> keeps its documented contract, the list \<open>GetQuotes\<close>
  returns is sorted non-decreasingly by \<open>TotalCost\<close> and holds exactly the quotes of the
  eligible adapters that answered with one. With the library sort of Go 1.19 and later
  and at most 12 such quotes, quotes of equal \<open>TotalCost\<close> moreover keep the registration
  order.
\<close>

theorem GetQuotes_sorted:
  "(sort_Slice_contract srt \<and> fst (GetQuotes srt rh req) = Ok qs \<longrightarrow>
      sorted (map TotalCost qs)
      \<and> mset qs = mset (surviving_quotes
            (GetAvailableProviders rh ''US'' (CountryCode (Address (Recipient req)))
               (FromCurrency req) (ToCurrency req)) req))
   \<and> (fst (GetQuotes (sort_Slice rnd) rh req) = Ok qs
       \<and> length (surviving_quotes
            (GetAvailableProviders rh ''US'' (CountryCode (Address (Recipient req)))
               (FromCurrency req) (ToCurrency req)) req) \<le> 12 \<longrightarrow>
      sorted (map TotalCost qs)
      \<and> (\<forall>c. filter (\<lambda>q. TotalCost q = c) qs =
               filter (\<lambda>q. TotalCost q = c)
                 (surviving_quotes
                    (GetAvailableProviders rh ''US'' (CountryCode (Address (Recipient req)))
                       (FromCurrency req) (ToCurrency req)) req)))"
proof (intro conjI impI)
  let ?sv = "surviving_quotes
            (GetAvailableProviders rh ''US'' (CountryCode (Address (Recipient req)))
               (FromCurrency req) (ToCurrency req)) req"
  {
    assume a: "sort_Slice_contract srt \<and> fst (GetQuotes srt rh req) = Ok qs"
    then have qs: "qs = srt (\<lambda>a b. TotalCost a < TotalCost b) ?sv"
      by (simp add: GetQuotes_Ok_iff)
    show "sorted (map TotalCost qs)"
      using a qs by (simp add: sort_Slice_contract_sorted)
    show "mset qs = mset ?sv"
      using a qs by (simp add: sort_Slice_contract_mset)
  }
  {
    assume b: "fst (GetQuotes (sort_Slice rnd) rh req) = Ok qs \<and> length ?sv \<le> 12"
    then have "qs = sort_Slice rnd (\<lambda>a b. TotalCost a < TotalCost b) ?sv"
      by (simp add: GetQuotes_Ok_iff)
    with b have qs: "qs = sort_key TotalCost ?sv"
      by (simp add: sort_Slice_small)
    show "sorted (map TotalCost qs)"
      by (simp add: qs)
    show "\<forall>c. filter (\<lambda>q. TotalCost q = c) qs = filter (\<lambda>q. TotalCost q = c) ?sv"
      by (simp add: qs sort_key_stable)
  }
qed

theorem GetQuotes_sorted_witness:
  "fst (GetQuotes (sort_Slice xorshift_Next) twelve_hub main_request) = Ok twelve_sorted
   \<and> fst (GetQuotes (\<lambda>lessf data. insertionSort_func lessf data 0 (length data))
            twelve_hub main_request) = Ok twelve_sorted
   \<and> sorted (map TotalCost twelve_sorted)
   \<and> mset twelve_sorted =
       mset (surviving_quotes (GetAvailableProviders twelve_hub ''US'' ''PH'' USD PHP)
               main_request)
   \<and> map Provider (filter (\<lambda>q. TotalCost q = 1009) twelve_sorted) = [''P01'', ''P02'']
   \<and> filter (\<lambda>q. TotalCost q = 1009) twelve_sorted =
       filter (\<lambda>q. TotalCost q = 1009)
         (surviving_quotes (GetAvailableProviders twelve_hub ''US'' ''PH'' USD PHP)
            main_request)"
proof -
  have a: "fst (GetQuotes (sort_Slice xorshift_Next) twelve_hub main_request) = Ok twelve_sorted"
    by code_simp
  have b: "fst (GetQuotes (\<lambda>lessf data. insertionSort_func lessf data 0 (length data))
            twelve_hub main_request) = Ok twelve_sorted"
    by code_simp
  have c: "length (surviving_quotes (GetAvailableProviders twelve_hub ''US'' ''PH'' USD PHP)
             main_request) \<le> 12"
    by code_simp
  have d: "CountryCode (Address (Recipient main_request)) = ''PH''
      \<and> FromCurrency main_request = USD \<and> ToCurrency main_request = PHP"
    by (simp add: main_request_def main_recipient_def)
  have e: "map Provider (filter (\<lambda>q. TotalCost q = 1009) twelve_sorted) = [''P01'', ''P02'']"
    by code_simp
  from GetQuotes_sorted
         [of "\<lambda>lessf data. insertionSort_func lessf data 0 (length data)"
             twelve_hub main_request twelve_sorted xorshift_Next]
       insertionSort_contract a b c d e
  show ?thesis by simp
qed

text \<open>
  With thirteen adapters the two that charge 9 come out in the reverse of their
  registration order.
\<close>

theorem GetQuotes_ties_reordered:
  "fst (GetQuotes (sort_Slice xorshift_Next) thirteen_hub main_request) = Ok thirteen_sorted
   \<and> map Provider (filter (\<lambda>q. TotalCost q = 1009) thirteen_sorted) = [''P02'', ''P01'']
   \<and> map Provider
         (filter (\<lambda>q. TotalCost q = 1009)
            (surviving_quotes (GetAvailableProviders thirteen_hub ''US'' ''PH'' USD PHP)
               main_request)) = [''P01'', ''P02'']
   \<and> map GetName (providers thirteen_hub) =
       [''P01'', ''P02'', ''P03'', ''P04'', ''P05'', ''P06'', ''P07'', ''P08'', ''P09'', ''P10'',
        ''P11'', ''P12'', ''P13'']"
  by code_simp

subsection \<open>Failing adapters\<close>

text \<open>
  C2: when one eligible adapter answers \<open>GetQuote\<close> with an error and every other eligible
  adapter answers with a quote, \<open>GetQuotes\<close> returns, with no error, the sorted quotes of
  the others: as many quotes as there are other adapters, and exactly theirs.
\<close>

theorem GetQuotes_one_failure:
  assumes "sort_Slice_contract srt"
    and "GetAvailableProviders rh ''US'' (CountryCode (Address (Recipient req)))
           (FromCurrency req) (ToCurrency req) = ps @ p # ps'"
    and "GetQuote p req = Err e"
    and "\<forall>x\<in>set (ps @ ps'). \<exists>q. GetQuote x req = Ok q"
  shows "fst (GetQuotes srt rh req) =
           Ok (srt (\<lambda>a b. TotalCost a < TotalCost b) (surviving_quotes (ps @ ps') req))
       \<and> mset (srt (\<lambda>a b. TotalCost a < TotalCost b) (surviving_quotes (ps @ ps') req)) =
           mset (surviving_quotes (ps @ ps') req)
       \<and> length (surviving_quotes (ps @ ps') req) = length ps + length ps'"
proof -
  have sv: "surviving_quotes (ps @ p # ps') req = surviving_quotes (ps @ ps') req"
    using assms(3) surviving_quotes_append [of ps "p # ps'" req]
    by (simp add: surviving_quotes_append)
  have "\<forall>x\<in>set (ps @ p # ps'). \<forall>m. GetQuote x req \<noteq> Panic m"
  proof (intro ballI allI)
    fix x m
    assume "x \<in> set (ps @ p # ps')"
    then consider "x = p" | "x \<in> set (ps @ ps')"
      by auto
    then show "GetQuote x req \<noteq> Panic m"
    proof cases
      case 1
      then show ?thesis using assms(3) by simp
    next
      case 2
      with assms(4) obtain q where "GetQuote x req = Ok q"
        by blast
      then show ?thesis by simp
    qed
  qed
  then have "fst (GetQuotes srt rh req) =
      Ok (srt (\<lambda>a b. TotalCost a < TotalCost b) (surviving_quotes (ps @ p # ps') req))"
    using GetQuotes_no_panic [of rh req srt] assms(2) by simp
  moreover have "length (surviving_quotes (ps @ ps') req) = length (ps @ ps')"
    using assms(4) by (rule surviving_quotes_all_Ok)
  ultimately show ?thesis
    using sv assms(1) by (simp add: sort_Slice_contract_mset)
qed

theorem GetQuotes_one_failure_witness:
  "fst (GetQuotes (sort_Slice xorshift_Next) (hub wise_down_service) main_request) =
     Ok [flat_fee_quote ''WorldRemit'' (float64_round (599 / 100)) main_request,
         \<lparr>Provider = ''Remitly'', Amount = 1000, Fee = 20, ExchangeRate = float64_round (115 / 100),
          TotalCost = 1020, ReceivedAmount = 1150, EstimatedTime = ''Minutes to hours'',
          ValidUntil = 1700001800\<rparr>]
   \<and> fst (GetQuotes (\<lambda>lessf data. insertionSort_func lessf data 0 (length data))
           (hub wise_down_service) main_request) =
     Ok (insertionSort_func (\<lambda>a b. TotalCost a < TotalCost b)
           (surviving_quotes [Remitly 1700000000, WorldRemit 1700000000] main_request) 0
           (length (surviving_quotes [Remitly 1700000000, WorldRemit 1700000000] main_request)))
   \<and> length (surviving_quotes [Remitly 1700000000, WorldRemit 1700000000] main_request) = 2"
proof -
  have a: "GetQuote (Wise 1700000000 (ClientFailure ''connection refused'') transfer_reply)
             main_request = Err (ClientError ''connection refused'')"
    by (simp add: Wise_def Wise_GetQuote_def)
  have b: "\<forall>x\<in>set ([] @ [Remitly 1700000000, WorldRemit 1700000000]).
             \<exists>q. GetQuote x main_request = Ok q"
    by (simp add: Remitly_def WorldRemit_def Remitly_GetQuote_def WorldRemit_GetQuote_def
        Let_def)
  have c: "fst (GetQuotes (sort_Slice xorshift_Next) (hub wise_down_service) main_request) =
     Ok [flat_fee_quote ''WorldRemit'' (float64_round (599 / 100)) main_request,
         \<lparr>Provider = ''Remitly'', Amount = 1000, Fee = 20, ExchangeRate = float64_round (115 / 100),
          TotalCost = 1020, ReceivedAmount = 1150, EstimatedTime = ''Minutes to hours'',
          ValidUntil = 1700001800\<rparr>]"
    by code_simp
  from GetQuotes_one_failure [OF insertionSort_contract wise_down_providers a b] c
  show ?thesis by simp
qed

subsection \<open>Eligibility\<close>

text \<open>
  C3: \<open>GetAvailableProviders\<close> returns exactly the registered adapters, in registration
  order, that support at least one of the two currencies and at least one of the two
  countries.
\<close>

theorem GetAvailableProviders_exact:
  "GetAvailableProviders rh fromCountry toCountry fromCurrency toCurrency =
     filter (\<lambda>p. (fromCurrency \<in> set (GetSupportedCurrencies p)
                    \<or> toCurrency \<in> set (GetSupportedCurrencies p))
                \<and> (fromCountry \<in> set (GetSupportedCountries p)
                    \<or> toCountry \<in> set (GetSupportedCountries p)))
            (providers rh)"
  by (simp add: GetAvailableProviders_def GetAvailableProviders_loop_filter)

theorem GetAvailableProviders_exact_witness:
  "map GetName (GetAvailableProviders (hub main_service) ''US'' ''MX'' USD MXN) =
     [''Wise'', ''Remitly'', ''WorldRemit'']
   \<and> map GetName (GetAvailableProviders (hub main_service) ''KE'' ''GH'' MXN MXN) = []
   \<and> map GetName (GetAvailableProviders (hub main_service) ''KE'' ''GH'' USD MXN) = [''WorldRemit'']"
  unfolding GetAvailableProviders_exact [of "hub main_service"]
  by (simp add: main_service_providers adapter_defs)

subsection \<open>The best quote\<close>

text \<open>
  C4: \<open>GetBestQuote\<close> returns the first element of the list \<open>GetQuotes\<close> returns; when
  that list is empty it returns the error "no quotes available". That is the only error it
  ever returns, and it is none of the errors an adapter's transport or decoding yields.
\<close>

theorem GetBestQuote_first:
  "(fst (GetQuotes srt rh req) = Ok (q # qs) \<longrightarrow> fst (GetBestQuote srt rh req) = Ok q)
   \<and> (fst (GetQuotes srt rh req) = Ok [] \<longrightarrow> fst (GetBestQuote srt rh req) = Err ErrNoQuotes)
   \<and> (fst (GetBestQuote srt rh req) = Err e \<longrightarrow> e = ErrNoQuotes)
   \<and> ErrNoQuotes \<noteq> ClientError m \<and> ErrNoQuotes \<noteq> SyntaxError m
   \<and> ErrNoQuotes \<noteq> UnmarshalTypeError m
   \<and> error_string ErrNoQuotes = ''no quotes available''"
  using GetQuotes_not_Err [of srt rh req]
  by (auto simp: GetBestQuote_fst split: result.splits list.splits)

theorem GetBestQuote_first_witness:
  "fst (GetBestQuote (sort_Slice xorshift_Next) (hub main_service) main_request) =
     Ok (flat_fee_quote ''WorldRemit'' (float64_round (599 / 100)) main_request)
   \<and> TotalCost (flat_fee_quote ''WorldRemit'' (float64_round (599 / 100)) main_request) = 4424390809705513 / 4398046511104
   \<and> fst (GetBestQuote (sort_Slice xorshift_Next) wise_only_hub main_request) = Err ErrNoQuotes
   \<and> GetQuote (Wise 1700000000 (ClientFailure ''connection refused'') transfer_reply)
        main_request = Err (ClientError ''connection refused'')"
proof -
  have a: "fst (GetQuotes (sort_Slice xorshift_Next) wise_only_hub main_request) = Ok []"
    by (simp add: wise_only_quotes)
  have b: "GetQuote (Wise 1700000000 (ClientFailure ''connection refused'') transfer_reply)
        main_request = Err (ClientError ''connection refused'')"
    by (simp add: Wise_def Wise_GetQuote_def)
  have c: "TotalCost (flat_fee_quote ''WorldRemit'' (float64_round (599 / 100)) main_request) = 4424390809705513 / 4398046511104"
    by code_simp
  from GetBestQuote_first
         [of "sort_Slice xorshift_Next" "hub main_service" main_request
             "flat_fee_quote ''WorldRemit'' (float64_round (599 / 100)) main_request" _ ErrNoQuotes]
       GetBestQuote_first
         [of "sort_Slice xorshift_Next" wise_only_hub main_request _ _ ErrNoQuotes]
       main_quotes a b c
  show ?thesis by simp
qed

subsection \<open>Routing a transfer\<close>

text \<open>
  C5: for a name that no registered adapter bears, \<open>SendMoneyWithProvider\<close> returns the
  provider-not-found error and invokes no adapter; for a registered name it returns what
  the first adapter of that name returns for the unchanged request, whatever that is, and
  that call is the only one it makes.
\<close>

theorem SendMoneyWithProvider_routing:
  "(providerName \<notin> GetName ` set (providers rh) \<longrightarrow>
      SendMoneyWithProvider rh providerName req = (Err (ErrProviderNotFound providerName), []))
   \<and> (find (\<lambda>p. GetName p = providerName) (providers rh) = Some p \<longrightarrow>
      SendMoneyWithProvider rh providerName req =
        (SendMoney p req, [SendCall providerName req]))"
  by (simp add: SendMoneyWithProvider_def SendMoneyWithProvider_loop_not_found
      SendMoneyWithProvider_loop_found)

theorem SendMoneyWithProvider_routing_witness:
  "SendMoneyWithProvider (hub main_service) ''Western Union'' main_request =
     (Err (ErrProviderNotFound ''Western Union''), [])
   \<and> SendMoneyWithProvider (hub main_service) ''Remitly'' main_request =
     (Remitly_SendMoney 1700000000 main_request, [SendCall ''Remitly'' main_request])"
proof -
  have a: "''Western Union'' \<notin> GetName ` set (providers (hub main_service))"
    by (simp add: main_service_providers adapter_defs)
  have b: "find (\<lambda>p. GetName p = ''Remitly'') (providers (hub main_service)) =
             Some (Remitly 1700000000)"
    by (simp add: main_service_providers adapter_defs)
  from SendMoneyWithProvider_routing
         [of "''Western Union''" "hub main_service" main_request "Remitly 1700000000"] a
  have 1: "SendMoneyWithProvider (hub main_service) ''Western Union'' main_request =
     (Err (ErrProviderNotFound ''Western Union''), [])" by blast
  from SendMoneyWithProvider_routing
         [of "''Remitly''" "hub main_service" main_request "Remitly 1700000000"] b
  have 2: "SendMoneyWithProvider (hub main_service) ''Remitly'' main_request =
     (SendMoney (Remitly 1700000000) main_request, [SendCall ''Remitly'' main_request])"
    by blast
  show ?thesis using 1 2 by (simp add: Remitly_def)
qed

subsection \<open>No quotes\<close>

text \<open>
  C6: when no registered adapter is eligible, or every eligible adapter answers
  \<open>GetQuote\<close> with an error, \<open>GetQuotes\<close> returns the empty list and no error.
\<close>

theorem GetQuotes_empty:
  assumes "sort_Slice_contract srt"
    and "GetAvailableProviders rh ''US'' (CountryCode (Address (Recipient req)))
           (FromCurrency req) (ToCurrency req) = []
         \<or> (\<forall>p\<in>set (GetAvailableProviders rh ''US'' (CountryCode (Address (Recipient req)))
                      (FromCurrency req) (ToCurrency req)). \<exists>e. GetQuote p req = Err e)"
  shows "fst (GetQuotes srt rh req) = Ok []"
proof -
  let ?ps = "GetAvailableProviders rh ''US'' (CountryCode (Address (Recipient req)))
               (FromCurrency req) (ToCurrency req)"
  from assms(2) have all: "\<forall>p\<in>set ?ps. \<exists>e. GetQuote p req = Err e"
    by auto
  then have "\<forall>p\<in>set ?ps. \<forall>m. GetQuote p req \<noteq> Panic m"
    by auto
  then have "fst (GetQuotes srt rh req) =
      Ok (srt (\<lambda>a b. TotalCost a < TotalCost b) (surviving_quotes ?ps req))"
    by (rule GetQuotes_no_panic)
  moreover have "surviving_quotes ?ps req = []"
    using all by (rule surviving_quotes_all_Err)
  ultimately show ?thesis
    using assms(1) by (simp add: sort_Slice_contract_Nil)
qed

theorem GetQuotes_empty_witness:
  "fst (GetQuotes (\<lambda>lessf data. insertionSort_func lessf data 0 (length data))
          (hub main_service) yen_request) = Ok []
   \<and> GetAvailableProviders (hub main_service) ''US'' ''PH'' ''JPY'' ''KRW'' = []
   \<and> fst (GetQuotes (\<lambda>lessf data. insertionSort_func lessf data 0 (length data))
          wise_only_hub main_request) = Ok []
   \<and> map GetName (GetAvailableProviders wise_only_hub ''US'' ''PH'' USD PHP) = [''Wise'']
   \<and> GetQuotes (sort_Slice xorshift_Next) wise_only_hub main_request =
       (Ok [], [QuoteCall ''Wise'' main_request,
                LogLine ''Error getting quote from Wise: connection refused''])"
proof -
  have y: "CountryCode (Address (Recipient yen_request)) = ''PH''
      \<and> FromCurrency yen_request = ''JPY'' \<and> ToCurrency yen_request = ''KRW''"
    by (simp add: yen_request_def main_request_def main_recipient_def)
  have m: "CountryCode (Address (Recipient main_request)) = ''PH''
      \<and> FromCurrency main_request = USD \<and> ToCurrency main_request = PHP"
    by (simp add: main_request_def main_recipient_def)
  have a: "GetAvailableProviders (hub main_service) ''US'' ''PH'' ''JPY'' ''KRW'' = []"
    by (simp add: GetAvailableProviders_filter main_service_providers adapter_defs)
  have w: "GetAvailableProviders wise_only_hub ''US'' ''PH'' USD PHP =
             [Wise 1700000000 (ClientFailure ''connection refused'') transfer_reply]"
    by (simp add: GetAvailableProviders_filter wise_only_hub_def AddProvider_def
        NewRemittanceHub_def adapter_defs)
  have b: "\<forall>p\<in>set (GetAvailableProviders wise_only_hub ''US'' ''PH'' USD PHP).
             \<exists>e. GetQuote p main_request = Err e"
    by (simp add: w Wise_def Wise_GetQuote_def)
  have c: "GetQuotes (sort_Slice xorshift_Next) wise_only_hub main_request =
       (Ok [], [QuoteCall ''Wise'' main_request,
                LogLine ''Error getting quote from Wise: connection refused''])"
    by code_simp
  from GetQuotes_empty [OF insertionSort_contract, of "hub main_service" yen_request]
       GetQuotes_empty [OF insertionSort_contract, of wise_only_hub main_request]
       y m a b c w
  show ?thesis by (simp add: Wise_def Wise_GetName_def)
qed

subsection \<open>The corridor \<open>GetQuotes\<close> filters by\<close>

text \<open>
  C7: the adapters \<open>GetQuotes\<close> asks for a quote are those eligible for the source
  country \<open>US\<close> and the target country \<open>request.Recipient.Address.CountryCode\<close>, with the
  request's two currencies, each asked once with the request, in registration order; the
  sender of the request plays no part.
\<close>

theorem GetQuotes_corridor:
  "(fst (GetQuotes srt rh req) = Ok qs \<longrightarrow>
      quote_calls (snd (GetQuotes srt rh req)) =
        map (\<lambda>p. (GetName p, req))
          (GetAvailableProviders rh ''US'' (CountryCode (Address (Recipient req)))
             (FromCurrency req) (ToCurrency req)))
   \<and> (fst (GetQuotes srt rh (req\<lparr>SenderID := sender\<rparr>)) = Ok qs' \<longrightarrow>
      map fst (quote_calls (snd (GetQuotes srt rh (req\<lparr>SenderID := sender\<rparr>)))) =
        map GetName
          (GetAvailableProviders rh ''US'' (CountryCode (Address (Recipient req)))
             (FromCurrency req) (ToCurrency req)))"
proof -
  have calls: "quote_calls (snd (GetQuotes srt rh r)) =
        map (\<lambda>p. (GetName p, r))
          (GetAvailableProviders rh ''US'' (CountryCode (Address (Recipient r)))
             (FromCurrency r) (ToCurrency r))"
    if "fst (GetQuotes srt rh r) = Ok ys" for r ys
  proof -
    from that obtain zs where
      "fst (GetQuotes_loop
              (GetAvailableProviders rh ''US'' (CountryCode (Address (Recipient r)))
                 (FromCurrency r) (ToCurrency r)) r [] []) = Ok zs"
      by (auto simp: GetQuotes_fst split: result.splits)
    from GetQuotes_loop_calls [OF this] show ?thesis
      by (simp add: GetQuotes_snd)
  qed
  show ?thesis
    using calls [of req qs] calls [of "req\<lparr>SenderID := sender\<rparr>" qs']
    by (auto simp: comp_def)
qed

theorem GetQuotes_corridor_witness:
  "map fst (quote_calls (snd (GetQuotes (sort_Slice xorshift_Next) (hub main_service)
                                 kenya_request))) = [''Wise'', ''Remitly'', ''WorldRemit'']
   \<and> map GetName (GetAvailableProviders (hub main_service) ''US'' ''KE'' USD PHP) =
       [''Wise'', ''Remitly'', ''WorldRemit'']
   \<and> map GetName (GetAvailableProviders (hub main_service) ''GB'' ''KE'' USD PHP) =
       [''Wise'', ''Remitly'', ''WorldRemit'']
   \<and> map GetName (GetAvailableProviders (hub main_service) ''MX'' ''KE'' USD PHP) =
       [''Remitly'', ''WorldRemit'']
   \<and> quote_calls (snd (GetQuotes (sort_Slice xorshift_Next) (hub main_service) main_request)) =
       [(''Wise'', main_request), (''Remitly'', main_request), (''WorldRemit'', main_request)]"
proof -
  have k: "kenya_request = (main_request\<lparr>Recipient := main_recipient\<lparr>Address := Address main_recipient\<lparr>CountryCode := ''KE''\<rparr>\<rparr>\<rparr>)\<lparr>SenderID := ''sender-in-GB''\<rparr>"
    by (simp add: kenya_request_def main_request_def)
  have ys: "fst (GetQuotes (sort_Slice xorshift_Next) (hub main_service) kenya_request) =
     Ok [flat_fee_quote ''WorldRemit'' (float64_round (599 / 100)) main_request,
         \<lparr>Provider = ''Wise'', Amount = 1000, Fee = 15, ExchangeRate = float64_round (12 / 10),
          TotalCost = 1015, ReceivedAmount = 1200, EstimatedTime = ''1-2 business days'',
          ValidUntil = 1700086400\<rparr>,
         \<lparr>Provider = ''Remitly'', Amount = 1000, Fee = 20, ExchangeRate = float64_round (115 / 100),
          TotalCost = 1020, ReceivedAmount = 1150, EstimatedTime = ''Minutes to hours'',
          ValidUntil = 1700001800\<rparr>]"
    by code_simp
  have b: "map GetName (GetAvailableProviders (hub main_service) ''US'' ''KE'' USD PHP) =
       [''Wise'', ''Remitly'', ''WorldRemit'']"
    by (simp add: GetAvailableProviders_filter main_service_providers adapter_defs)
  have c: "map GetName (GetAvailableProviders (hub main_service) ''GB'' ''KE'' USD PHP) =
       [''Wise'', ''Remitly'', ''WorldRemit'']"
    by (simp add: GetAvailableProviders_filter main_service_providers adapter_defs)
  have d: "map GetName (GetAvailableProviders (hub main_service) ''MX'' ''KE'' USD PHP) =
       [''Remitly'', ''WorldRemit'']"
    by (simp add: GetAvailableProviders_filter main_service_providers adapter_defs)
  have e: "map (\<lambda>p. (GetName p, main_request))
             (GetAvailableProviders (hub main_service) ''US''
                (CountryCode (Address (Recipient main_request)))
                (FromCurrency main_request) (ToCurrency main_request)) =
           [(''Wise'', main_request), (''Remitly'', main_request), (''WorldRemit'', main_request)]"
    by (simp add: GetAvailableProviders_filter main_service_providers adapter_defs
        main_request_def main_recipient_def)
  have f: "CountryCode (Address (Recipient
              (main_request\<lparr>Recipient := main_recipient\<lparr>Address := Address main_recipient\<lparr>CountryCode := ''KE''\<rparr>\<rparr>\<rparr>))) = ''KE''
      \<and> FromCurrency (main_request\<lparr>Recipient := main_recipient\<lparr>Address := Address main_recipient\<lparr>CountryCode := ''KE''\<rparr>\<rparr>\<rparr>) = USD
      \<and> ToCurrency (main_request\<lparr>Recipient := main_recipient\<lparr>Address := Address main_recipient\<lparr>CountryCode := ''KE''\<rparr>\<rparr>\<rparr>) = PHP"
    by (simp add: main_request_def)
  from GetQuotes_corridor
         [of "sort_Slice xorshift_Next" "hub main_service" main_request _ _ _]
       GetQuotes_corridor
         [of "sort_Slice xorshift_Next" "hub main_service"
             "main_request\<lparr>Recipient := main_recipient\<lparr>Address := Address main_recipient\<lparr>CountryCode := ''KE''\<rparr>\<rparr>\<rparr>"
             _ "''sender-in-GB''"]
       main_quotes ys b c d e f
  show ?thesis by (simp add: k [symmetric])
qed

subsection \<open>Malformed replies\<close>

text \<open>
  C8: Wise's backend answers with well-formed JSON that carries no \<open>fee\<close> (an error
  body), or a \<open>fee\<close> that is a string; \<open>GetQuote\<close> panics in the type assertion, and
  \<open>SendMoney\<close> panics likewise on a body with no \<open>id\<close>. Neither reports an error.
\<close>

theorem Wise_panics_on_malformed_reply:
  "Wise_GetQuote now unauthorized_reply req =
     Panic ''interface conversion: interface {} is nil, not float64''
   \<and> Wise_SendMoney unauthorized_reply req =
     Panic ''interface conversion: interface {} is nil, not string''
   \<and> Wise_GetQuote now (Response (JSON (JObject [(''fee'', JString ''15.00'')]))) req =
     Panic ''interface conversion: interface {} is string, not float64''"
  by (simp add: Wise_GetQuote_def Wise_SendMoney_def unauthorized_reply_def)

subsection \<open>The total cost of a quote\<close>

text \<open>
  C9: a quote that the \<open>GetQuote\<close> of Wise, Remitly or WorldRemit returns carries the
  request's amount, and its \<open>TotalCost\<close> equals that amount plus the quote's fee. The sum
  is the one the source computes, \<open>req.Amount + fee\<close> in \<open>float64\<close>: the exact sum
  rounded to the nearest \<open>float64\<close>, which \<open>float64_add_error\<close> bounds. For the request
  of \<open>main\<close> WorldRemit's total is the \<open>float64\<close> nearest to 1005.99 and not the decimal
  number itself; for a tenth of a dollar Remitly's is 0.10200000000000001; for \<open>1e17\<close>
  dollars WorldRemit's is the amount, the fee being less than half the spacing there.
\<close>

theorem GetQuote_TotalCost:
  "(Wise_GetQuote now reply req = Ok q \<longrightarrow>
      RemittanceQuote.Amount q = TransactionRequest.Amount req
      \<and> TotalCost q = float64_add (TransactionRequest.Amount req) (RemittanceQuote.Fee q))
   \<and> (Remitly_GetQuote now req = Ok q \<longrightarrow>
      RemittanceQuote.Amount q = TransactionRequest.Amount req
      \<and> TotalCost q = float64_add (TransactionRequest.Amount req) (RemittanceQuote.Fee q))
   \<and> (WorldRemit_GetQuote now req = Ok q \<longrightarrow>
      RemittanceQuote.Amount q = TransactionRequest.Amount req
      \<and> TotalCost q = float64_add (TransactionRequest.Amount req) (RemittanceQuote.Fee q))"
  by (auto simp: Wise_GetQuote_def Remitly_GetQuote_def WorldRemit_GetQuote_def Let_def
      split: sum.splits result.splits)

theorem GetQuote_TotalCost_witness:
  "Wise_GetQuote 1700000000 quote_reply main_request =
     Ok \<lparr>Provider = ''Wise'', Amount = 1000, Fee = 15, ExchangeRate = float64_round (12 / 10),
         TotalCost = 1015, ReceivedAmount = 1200, EstimatedTime = ''1-2 business days'',
         ValidUntil = 1700086400\<rparr>
   \<and> float64_add (TransactionRequest.Amount main_request) 15 = 1015
   \<and> Remitly_GetQuote 1700000000 main_request =
     Ok \<lparr>Provider = ''Remitly'', Amount = 1000, Fee = 20, ExchangeRate = float64_round (115 / 100),
         TotalCost = 1020, ReceivedAmount = 1150, EstimatedTime = ''Minutes to hours'',
         ValidUntil = 1700001800\<rparr>
   \<and> float64_add (TransactionRequest.Amount main_request) 20 = 1020
   \<and> WorldRemit_GetQuote 1700000000 main_request =
     Ok \<lparr>Provider = ''WorldRemit'', Amount = 1000, Fee = float64_round (599 / 100),
         ExchangeRate = float64_round (118 / 100),
         TotalCost = 4424390809705513 / 4398046511104, ReceivedAmount = 1180,
         EstimatedTime = ''Minutes'', ValidUntil = 1700000900\<rparr>
   \<and> float64_add (TransactionRequest.Amount main_request) (float64_round (599 / 100)) =
       4424390809705513 / 4398046511104
   \<and> TransactionRequest.Amount main_request + float64_round (599 / 100) \<noteq>
       4424390809705513 / 4398046511104
   \<and> Remitly_GetQuote 1700000000 small_request = Ok remitly_small_quote
   \<and> float64_add (TransactionRequest.Amount small_request) (RemittanceQuote.Fee remitly_small_quote) =
       3674937295934325 / 36028797018963968
   \<and> WorldRemit_GetQuote 1700000000 large_request = Ok worldremit_large_quote
   \<and> float64_add (TransactionRequest.Amount large_request) (float64_round (599 / 100)) =
       100000000000000000"
proof -
  have a: "TransactionRequest.Amount main_request + float64_round (599 / 100) \<noteq>
       4424390809705513 / 4398046511104"
    by code_simp
  have b: "TotalCost remitly_small_quote = 3674937295934325 / 36028797018963968
      \<and> TotalCost worldremit_large_quote = 100000000000000000
      \<and> RemittanceQuote.Fee worldremit_large_quote = float64_round (599 / 100)"
    by (simp add: remitly_small_quote_def worldremit_large_quote_def)
  have c: "TransactionRequest.Amount main_request = 1000"
    by (simp add: main_request_def)
  from GetQuote_TotalCost [of 1700000000 quote_reply main_request
          "\<lparr>Provider = ''Wise'', Amount = 1000, Fee = 15, ExchangeRate = float64_round (12 / 10),
            TotalCost = 1015, ReceivedAmount = 1200, EstimatedTime = ''1-2 business days'',
            ValidUntil = 1700086400\<rparr>"]
       GetQuote_TotalCost [of 1700000000 quote_reply main_request
          "\<lparr>Provider = ''Remitly'', Amount = 1000, Fee = 20, ExchangeRate = float64_round (115 / 100),
            TotalCost = 1020, ReceivedAmount = 1150, EstimatedTime = ''Minutes to hours'',
            ValidUntil = 1700001800\<rparr>"]
       GetQuote_TotalCost [of 1700000000 quote_reply main_request
          "\<lparr>Provider = ''WorldRemit'', Amount = 1000, Fee = float64_round (599 / 100),
            ExchangeRate = float64_round (118 / 100),
            TotalCost = 4424390809705513 / 4398046511104, ReceivedAmount = 1180,
            EstimatedTime = ''Minutes'', ValidUntil = 1700000900\<rparr>"]
       GetQuote_TotalCost [of 1700000000 quote_reply small_request remitly_small_quote]
       GetQuote_TotalCost [of 1700000000 quote_reply large_request worldremit_large_quote]
       Wise_GetQuote_main Remitly_GetQuote_main WorldRemit_GetQuote_main
       Remitly_GetQuote_small WorldRemit_GetQuote_large a b c
  show ?thesis by simp
qed

subsection \<open>The error of \<open>GetQuotes\<close>\<close>

text \<open>
  C10: \<open>GetQuotes\<close> never returns an error, and \<open>GetBestQuote\<close> returns an error exactly
  when the list \<open>GetQuotes\<close> returns is empty.
\<close>

theorem GetQuotes_error_nil:
  "fst (GetQuotes srt rh req) \<noteq> Err e
   \<and> ((\<exists>e'. fst (GetBestQuote srt rh req) = Err e') \<longleftrightarrow> fst (GetQuotes srt rh req) = Ok [])"
  using GetQuotes_not_Err [of srt rh req]
  by (auto simp: GetBestQuote_fst split: result.splits list.splits)

theorem GetQuotes_error_nil_witness:
  "fst (GetQuotes (sort_Slice xorshift_Next) wise_only_hub main_request) = Ok []
   \<and> fst (GetQuotes (sort_Slice xorshift_Next) wise_only_hub main_request)
        \<noteq> Err (ClientError ''connection refused'')
   \<and> (\<exists>e'. fst (GetBestQuote (sort_Slice xorshift_Next) wise_only_hub main_request) = Err e')
   \<and> \<not> (\<exists>e'. fst (GetBestQuote (sort_Slice xorshift_Next) (hub main_service) main_request)
              = Err e')"
proof -
  have a: "fst (GetQuotes (sort_Slice xorshift_Next) wise_only_hub main_request) = Ok []"
    by (simp add: wise_only_quotes)
  have b: "fst (GetQuotes (sort_Slice xorshift_Next) (hub main_service) main_request) \<noteq> Ok []"
    by (simp add: main_quotes)
  from GetQuotes_error_nil
         [of "sort_Slice xorshift_Next" wise_only_hub main_request
             "ClientError ''connection refused''"]
       GetQuotes_error_nil
         [of "sort_Slice xorshift_Next" "hub main_service" main_request
             "ClientError ''connection refused''"]
       a b
  show ?thesis by simp
qed

end
